theory Spec2Isabelle
  imports Main "HOL-Library.AList"
begin

section \<open>Type tags of \<open>jax/_src/dtypes.py\<close>\<close>

text \<open>
  The NumPy dtypes that JAX admits (\<open>_jax_types\<close>): bool, the ten integer dtypes
  (with \<open>ml_dtypes\<close>' 4-bit ones), the five 8-bit floats, bfloat16, the three IEEE
  floats and the two complex dtypes. \<open>float0\<close> and dtypes outside JAX's set are not
  part of the model.
\<close>

datatype dtype =
    Bool
  | UInt4 | UInt8 | UInt16 | UInt32 | UInt64
  | Int4 | Int8 | Int16 | Int32 | Int64
  | Float8_e4m3b11fnuz | Float8_e4m3fn | Float8_e4m3fnuz | Float8_e5m2 | Float8_e5m2fnuz
  | BFloat16 | Float16 | Float32 | Float64
  | Complex64 | Complex128

text \<open>The Python scalar classes \<open>bool\<close>, \<open>int\<close>, \<open>float\<close>, \<open>complex\<close>.\<close>

datatype pyscalar = PyBool | PyInt | PyFloat | PyComplex

text \<open>
  NumPy scalar types (subclasses of \<open>np.generic\<close>): the concrete scalar type of each
  dtype, the abstract categories of NumPy's hierarchy, and the two classes
  \<open>extended\<close> and \<open>prng_key\<close> that the module declares.
\<close>

datatype sctype =
    ScalarOf dtype
  | Generic | Number | Integer | SignedInteger | UnsignedInteger
  | Inexact | Floating | ComplexFloating
  | Extended | Prng_key

text \<open>
  An instance of \<open>ExtendedDType\<close>: opaque apart from its identity and its \<open>type\<close>
  property. Equality of two instances is equality of the values.
\<close>

datatype extdtype = ExtendedDType (ext_id: nat) (ext_type: sctype)

text \<open>
  \<open>JAXType = Union[type, DType]\<close>: a node handed to the lattice is a Python class
  (the weak types are the classes \<open>int\<close>, \<open>float\<close>, \<open>complex\<close>), a NumPy dtype, or
  an extended dtype that reached the promotion code.
\<close>

datatype jaxtype = PyType pyscalar | DT dtype | EXT extdtype

datatype promotion_msg = StrictMsg | Float8Msg | Int4Msg | GenericMsg | InternalMsg

datatype value_error =
    UnexpectedPromotion | CycleDetected | InvalidPromotionDtype
  | ExtendedNotAllowed | NoArguments | InvalidDtypeArgument | NotEnoughValues

datatype error =
    TypePromotionError promotion_msg
  | ValueError value_error
  | TypeError
  | KeyError
  | AttributeError

text \<open>The process-wide flags read from \<open>jax._src.config\<close>.\<close>

record config =
  numpy_dtype_promotion :: string
  enable_x64 :: bool
  default_dtype_bits :: string

subsection \<open>The enumerations of types\<close>

definition custom_float_dtypes :: "dtype list" where
  "custom_float_dtypes =
     [Float8_e4m3b11fnuz, Float8_e4m3fn, Float8_e4m3fnuz, Float8_e5m2, Float8_e5m2fnuz, BFloat16]"

definition float8_dtypes :: "dtype list" where
  "float8_dtypes =
     [Float8_e4m3b11fnuz, Float8_e4m3fn, Float8_e4m3fnuz, Float8_e5m2, Float8_e5m2fnuz]"

definition int4_dtypes :: "dtype list" where
  "int4_dtypes = [Int4, UInt4]"

definition weak_types :: "pyscalar list" where
  "weak_types = [PyInt, PyFloat, PyComplex]"

definition bool_types :: "dtype list" where
  "bool_types = [Bool]"

definition int_types :: "dtype list" where
  "int_types = [UInt4, UInt8, UInt16, UInt32, UInt64, Int4, Int8, Int16, Int32, Int64]"

definition float_types :: "dtype list" where
  "float_types = custom_float_dtypes @ [Float16, Float32, Float64]"

definition complex_types :: "dtype list" where
  "complex_types = [Complex64, Complex128]"

definition jax_types :: "dtype list" where
  "jax_types = bool_types @ int_types @ float_types @ complex_types"

section \<open>The promotion lattice\<close>

type_synonym lattice = "(jaxtype \<times> jaxtype list) list"

text \<open>
  \<open>_type_promotion_lattice\<close>. A dict is an association list in insertion order;
  \<open>out[k].append(x)\<close> and \<open>out[k] = v\<close> are \<open>AList.update\<close>.
\<close>

definition dict_append :: "jaxtype \<Rightarrow> jaxtype \<Rightarrow> lattice \<Rightarrow> error + lattice" where
  "dict_append k x out =
     (case map_of out k of
        None \<Rightarrow> Inl KeyError
      | Some v \<Rightarrow> Inr (AList.update k (v @ [x]) out))"

definition type_promotion_lattice :: "string \<Rightarrow> error + lattice" where
  "type_promotion_lattice jax_numpy_dtype_promotion =
     (let b1 = DT Bool;
          uint4 = DT UInt4; u1 = DT UInt8; u2 = DT UInt16; u4 = DT UInt32; u8 = DT UInt64;
          int4 = DT Int4; i1 = DT Int8; i2 = DT Int16; i4 = DT Int32; i8 = DT Int64;
          f1_types = map DT float8_dtypes;
          bf = DT BFloat16; f2 = DT Float16; f4 = DT Float32; f8 = DT Float64;
          c4 = DT Complex64; c8 = DT Complex128;
          i_w = PyType PyInt; f_w = PyType PyFloat; c_w = PyType PyComplex
      in if jax_numpy_dtype_promotion = ''standard'' then
           (let out =
                  [(b1, [i_w]),
                   (u1, [i2, u2]), (u2, [i4, u4]), (u4, [i8, u8]), (u8, [f_w]),
                   (i_w, [u1, i1]), (i1, [i2]), (i2, [i4]), (i4, [i8]), (i8, [f_w]),
                   (f_w, f1_types @ [bf, f2, c_w])]
                  @ map (\<lambda>t. (t, [])) f1_types
                  @ [(bf, [f4]), (f2, [f4]), (f4, [f8, c4]), (f8, [c8]),
                     (c_w, [c4]), (c4, [c8]), (c8, [])]
            in case dict_append i_w int4 out of
                 Inl e \<Rightarrow> Inl e
               | Inr out1 \<Rightarrow>
                   (case dict_append i_w uint4 (AList.update int4 [] out1) of
                      Inl e \<Rightarrow> Inl e
                    | Inr out2 \<Rightarrow> Inr (AList.update uint4 [] out2)))
         else if jax_numpy_dtype_promotion = ''strict'' then
           Inr ([(i_w, f_w # map DT int_types),
                 (f_w, c_w # map DT float_types),
                 (c_w, map DT complex_types)]
                @ map (\<lambda>t. (DT t, [])) jax_types)
         else Inl (ValueError UnexpectedPromotion))"

subsection \<open>Upper bounds: the transitive closure\<close>

text \<open>
  Python sets are lists without duplicates. \<open>set().union(*(lattice[b] for b in ub))\<close>
  raises \<open>KeyError\<close> when some \<open>b\<close> is not a key of the lattice.
\<close>

fun successors :: "lattice \<Rightarrow> jaxtype list \<Rightarrow> error + jaxtype list" where
  "successors lattice [] = Inr []"
| "successors lattice (b # bs) =
     (case map_of lattice b of
        None \<Rightarrow> Inl KeyError
      | Some v \<Rightarrow>
          (case successors lattice bs of
             Inl e \<Rightarrow> Inl e
           | Inr vs \<Rightarrow> Inr (List.union v vs)))"

definition lattice_nodes :: "lattice \<Rightarrow> jaxtype set" where
  "lattice_nodes lattice = (\<Union>(k, v) \<in> set lattice. set v)"

text \<open>The \<open>while True\<close> loop of \<open>_make_lattice_upper_bounds\<close> for one node \<open>n\<close>.\<close>

function upper_bounds_loop :: "lattice \<Rightarrow> jaxtype \<Rightarrow> jaxtype list \<Rightarrow> error + jaxtype list" where
  "upper_bounds_loop lattice n ub =
     (case successors lattice ub of
        Inl e \<Rightarrow> Inl e
      | Inr new_upper_bounds \<Rightarrow>
          if n \<in> set new_upper_bounds then Inl (ValueError CycleDetected)
          else if set new_upper_bounds \<subseteq> set ub then Inr ub
          else upper_bounds_loop lattice n (List.union ub new_upper_bounds))"
  by pat_completeness auto

termination upper_bounds_loop
proof (relation "measure (\<lambda>(lattice, n, ub). card (lattice_nodes lattice - set ub))")
  show "wf (measure (\<lambda>(lattice, n, ub). card (lattice_nodes lattice - set ub)))"
    by simp
next
  fix lattice :: lattice and n :: jaxtype and ub new :: "jaxtype list"
  assume succ: "successors lattice ub = Inr new"
    and grows: "\<not> set new \<subseteq> set ub"
  have nodes: "set vs \<subseteq> lattice_nodes lattice" if "successors lattice bs = Inr vs" for bs vs
    using that
  proof (induction bs arbitrary: vs)
    case Nil
    then show ?case by simp
  next
    case (Cons b bs)
    from Cons.prems obtain v ws where
      v: "map_of lattice b = Some v" and ws: "successors lattice bs = Inr ws"
      and vs: "vs = List.union v ws"
      by (auto split: option.splits sum.splits)
    from v have "(b, v) \<in> set lattice" by (rule map_of_SomeD)
    then have "set v \<subseteq> lattice_nodes lattice"
      by (auto simp: lattice_nodes_def)
    with Cons.IH [OF ws] vs show ?case by simp
  qed
  have fin: "finite (lattice_nodes lattice)"
    by (auto simp: lattice_nodes_def)
  from succ have sub: "set new \<subseteq> lattice_nodes lattice"
    by (rule nodes)
  from grows obtain x where x: "x \<in> set new" "x \<notin> set ub" by blast
  with sub have "x \<in> lattice_nodes lattice - set ub" by blast
  moreover from x have "x \<notin> lattice_nodes lattice - set (List.union ub new)" by simp
  ultimately have "lattice_nodes lattice - set (List.union ub new)
      \<subset> lattice_nodes lattice - set ub"
    by auto
  then have "card (lattice_nodes lattice - set (List.union ub new))
      < card (lattice_nodes lattice - set ub)"
    by (intro psubset_card_mono finite_Diff fin)
  then show "((lattice, n, List.union ub new), (lattice, n, ub))
      \<in> measure (\<lambda>(lattice, n, ub). card (lattice_nodes lattice - set ub))"
    by simp
qed

type_synonym upper_bounds = "(jaxtype \<times> jaxtype list) list"

text \<open>The \<open>for n in lattice\<close> loop, threading the dict \<open>upper_bounds\<close>.\<close>

fun upper_bounds_for :: "lattice \<Rightarrow> jaxtype list \<Rightarrow> upper_bounds \<Rightarrow> error + upper_bounds" where
  "upper_bounds_for lattice [] ubs = Inr ubs"
| "upper_bounds_for lattice (n # ns) ubs =
     (case map_of ubs n of
        None \<Rightarrow> Inl KeyError
      | Some ub0 \<Rightarrow>
          (case upper_bounds_loop lattice n ub0 of
             Inl e \<Rightarrow> Inl e
           | Inr ub \<Rightarrow> upper_bounds_for lattice ns (AList.update n ub ubs)))"

definition upper_bounds_of_lattice :: "lattice \<Rightarrow> error + upper_bounds" where
  "upper_bounds_of_lattice lattice =
     upper_bounds_for lattice (map fst lattice) (map (\<lambda>(node, v). (node, [node])) lattice)"

definition make_lattice_upper_bounds :: "string \<Rightarrow> error + upper_bounds" where
  "make_lattice_upper_bounds jax_numpy_dtype_promotion =
     (case type_promotion_lattice jax_numpy_dtype_promotion of
        Inl e \<Rightarrow> Inl e
      | Inr lattice \<Rightarrow> upper_bounds_of_lattice lattice)"

text \<open>
  The module-level dict \<open>_lattice_upper_bounds\<close>, built when the module is loaded; a
  failure of either construction is a failure of everything that reads it.
\<close>

definition lattice_upper_bounds :: "error + (string \<times> upper_bounds) list" where
  "lattice_upper_bounds =
     (case make_lattice_upper_bounds ''standard'' of
        Inl e \<Rightarrow> Inl e
      | Inr s \<Rightarrow>
          (case make_lattice_upper_bounds ''strict'' of
             Inl e \<Rightarrow> Inl e
           | Inr t \<Rightarrow> Inr [(''standard'', s), (''strict'', t)]))"

section \<open>The least upper bound\<close>

text \<open>\<open>[UB[n] for n in N]\<close>; \<open>None\<close> stands for the \<open>KeyError\<close> that the source catches.\<close>

fun lookup_bounds :: "upper_bounds \<Rightarrow> jaxtype list \<Rightarrow> jaxtype list list option" where
  "lookup_bounds UB [] = Some []"
| "lookup_bounds UB (n # ns) =
     (case map_of UB n of
        None \<Rightarrow> None
      | Some b \<Rightarrow>
          (case lookup_bounds UB ns of
             None \<Rightarrow> None
           | Some bs \<Rightarrow> Some (b # bs)))"

text \<open>\<open>set.intersection(*bounds)\<close>: a \<open>TypeError\<close> without an argument.\<close>

fun set_intersection :: "jaxtype list list \<Rightarrow> error + jaxtype list" where
  "set_intersection [] = Inl TypeError"
| "set_intersection (b # bs) =
     Inr (fold (\<lambda>c acc. filter (\<lambda>x. x \<in> set c) acc) bs (remdups b))"

text \<open>\<open>{c for c in CUB if CUB.issubset(UB[c])}\<close>, over the members \<open>cs\<close> of \<open>CUB\<close>.\<close>

fun lub_candidates :: "upper_bounds \<Rightarrow> jaxtype list \<Rightarrow> jaxtype list \<Rightarrow> error + jaxtype list" where
  "lub_candidates UB CUB [] = Inr []"
| "lub_candidates UB CUB (c # cs) =
     (case map_of UB c of
        None \<Rightarrow> Inl KeyError
      | Some ub \<Rightarrow>
          (case lub_candidates UB CUB cs of
             Inl e \<Rightarrow> Inl e
           | Inr r \<Rightarrow> Inr (if set CUB \<subseteq> set ub then c # r else r)))"

text \<open>
  The message of the \<open>TypePromotionError\<close> raised when \<open>len(LUB) == 0\<close>: the
  \<open>if\<close>/\<open>elif\<close> chain of the source. It reads the configuration, not the argument
  \<open>jax_numpy_dtype_promotion\<close>; \<open>n in _float8_dtypes\<close> holds for dtypes only.
\<close>

definition no_promotion_path_msg :: "config \<Rightarrow> jaxtype list \<Rightarrow> promotion_msg" where
  "no_promotion_path_msg cfg nodes =
     (if numpy_dtype_promotion cfg = ''strict'' then StrictMsg
      else if list_ex (\<lambda>n. n \<in> set (map DT float8_dtypes)) nodes then Float8Msg
      else if list_ex (\<lambda>n. n \<in> set (map DT int4_dtypes)) nodes then Int4Msg
      else GenericMsg)"

text \<open>
  \<open>_least_upper_bound\<close>, with the module's dict \<open>_lattice_upper_bounds\<close> as the
  parameter \<open>tables\<close>.
\<close>

definition least_upper_bound_on ::
  "(string \<times> upper_bounds) list \<Rightarrow> config \<Rightarrow> string \<Rightarrow> jaxtype list \<Rightarrow> error + jaxtype" where
  "least_upper_bound_on tables cfg jax_numpy_dtype_promotion nodes =
     (let N = remdups nodes in
      case map_of tables jax_numpy_dtype_promotion of
        None \<Rightarrow> Inl KeyError
      | Some UB \<Rightarrow>
          (case lookup_bounds UB N of
             None \<Rightarrow> Inl (ValueError InvalidPromotionDtype)
           | Some bounds \<Rightarrow>
               (case set_intersection bounds of
                  Inl e \<Rightarrow> Inl e
                | Inr CUB \<Rightarrow>
                    (case (if filter (\<lambda>c. c \<in> set N) CUB \<noteq> []
                           then Inr (filter (\<lambda>c. c \<in> set N) CUB)
                           else lub_candidates UB CUB CUB) of
                       Inl e \<Rightarrow> Inl e
                     | Inr [c] \<Rightarrow> Inr c
                     | Inr [] \<Rightarrow> Inl (TypePromotionError (no_promotion_path_msg cfg nodes))
                     | Inr (c # d # r) \<Rightarrow> Inl (TypePromotionError InternalMsg)))))"

definition least_upper_bound :: "config \<Rightarrow> string \<Rightarrow> jaxtype list \<Rightarrow> error + jaxtype" where
  "least_upper_bound cfg jax_numpy_dtype_promotion nodes =
     (case lattice_upper_bounds of
        Inl e \<Rightarrow> Inl e
      | Inr tables \<Rightarrow> least_upper_bound_on tables cfg jax_numpy_dtype_promotion nodes)"

section \<open>NumPy's part: \<open>np.dtype\<close> and the scalar type hierarchy\<close>

text \<open>
  What the module hands to \<open>np.dtype\<close>: \<open>None\<close>, a Python scalar class, a dtype
  object, a concrete NumPy scalar class such as \<open>np.int32\<close>, or (by mistake) an
  \<open>ExtendedDType\<close> instance, which NumPy cannot interpret.
  \<open>np.dtype(None)\<close> is float64 and \<open>np.dtype(int)\<close> is int64, as in
  \<open>python_scalar_dtypes\<close>.
\<close>

datatype dtypelike =
    DNone
  | PyClass pyscalar
  | DTypeObj dtype
  | ScalarType dtype
  | ExtDType extdtype

definition python_scalar_dtypes :: "pyscalar \<Rightarrow> dtype" where
  "python_scalar_dtypes t =
     (case t of PyBool \<Rightarrow> Bool | PyInt \<Rightarrow> Int64 | PyFloat \<Rightarrow> Float64 | PyComplex \<Rightarrow> Complex128)"

definition np_dtype :: "dtypelike \<Rightarrow> error + dtype" where
  "np_dtype x =
     (case x of
        DNone \<Rightarrow> Inr Float64
      | PyClass t \<Rightarrow> Inr (python_scalar_dtypes t)
      | DTypeObj d \<Rightarrow> Inr d
      | ScalarType d \<Rightarrow> Inr d
      | ExtDType e \<Rightarrow> Inl TypeError)"

text \<open>
  The method resolution order of a scalar type inside \<open>np.generic\<close>. The scalar
  types of \<open>ml_dtypes\<close> derive from \<open>np.generic\<close> directly, \<open>np.bool_\<close> too.
\<close>

definition np_bases :: "dtype \<Rightarrow> sctype list" where
  "np_bases d =
     (if d \<in> set [UInt8, UInt16, UInt32, UInt64] then [UnsignedInteger, Integer, Number, Generic]
      else if d \<in> set [Int8, Int16, Int32, Int64] then [SignedInteger, Integer, Number, Generic]
      else if d \<in> set [Float16, Float32, Float64] then [Floating, Inexact, Number, Generic]
      else if d \<in> set [Complex64, Complex128] then [ComplexFloating, Inexact, Number, Generic]
      else [Generic])"

fun mro :: "sctype \<Rightarrow> sctype list" where
  "mro (ScalarOf d) = ScalarOf d # np_bases d"
| "mro Generic = [Generic]"
| "mro Number = [Number, Generic]"
| "mro Integer = [Integer, Number, Generic]"
| "mro SignedInteger = [SignedInteger, Integer, Number, Generic]"
| "mro UnsignedInteger = [UnsignedInteger, Integer, Number, Generic]"
| "mro Inexact = [Inexact, Number, Generic]"
| "mro Floating = [Floating, Inexact, Number, Generic]"
| "mro ComplexFloating = [ComplexFloating, Inexact, Number, Generic]"
| "mro Extended = [Extended, Generic]"
| "mro Prng_key = [Prng_key, Extended, Generic]"

definition issubclass :: "sctype \<Rightarrow> sctype \<Rightarrow> bool" where
  "issubclass a b = (b \<in> set (mro a))"

text \<open>\<open>np.issubdtype\<close> on two scalar types is \<open>issubclass\<close>.\<close>

definition np_issubdtype :: "sctype \<Rightarrow> sctype \<Rightarrow> bool" where
  "np_issubdtype a b = issubclass a b"

section \<open>\<open>issubdtype\<close>\<close>

text \<open>
  An argument of \<open>issubdtype\<close> is something \<open>np.dtype\<close> takes, or a class below
  \<open>np.generic\<close> (a category such as \<open>np.floating\<close>, or \<open>extended\<close>).
  \<open>Class (ScalarOf d)\<close> and \<open>Like (ScalarType d)\<close> are the same class.
\<close>

datatype typearg = Like dtypelike | Class sctype

text \<open>\<open>Some t\<close> when the argument is a class below \<open>np.generic\<close>.\<close>

definition generic_subclass :: "typearg \<Rightarrow> sctype option" where
  "generic_subclass a =
     (case a of
        Class t \<Rightarrow> Some t
      | Like (ScalarType d) \<Rightarrow> Some (ScalarOf d)
      | Like _ \<Rightarrow> None)"

text \<open>\<open>a if _issubclass(a, np.generic) else np.dtype(a).type\<close>\<close>

definition sctype_of :: "typearg \<Rightarrow> error + sctype" where
  "sctype_of a =
     (case generic_subclass a of
        Some t \<Rightarrow> Inr t
      | None \<Rightarrow>
          (case a of
             Like l \<Rightarrow> (case np_dtype l of Inl e \<Rightarrow> Inl e | Inr d \<Rightarrow> Inr (ScalarOf d))
           | Class t \<Rightarrow> Inr t))"

definition custom_float_scalar_types :: "sctype list" where
  "custom_float_scalar_types = map ScalarOf custom_float_dtypes"

definition issubdtype :: "typearg \<Rightarrow> typearg \<Rightarrow> error + bool" where
  "issubdtype a b =
     (if (case generic_subclass b of Some tb \<Rightarrow> issubclass tb Extended | None \<Rightarrow> False) then
        (case generic_subclass b of
           None \<Rightarrow> Inr False
         | Some tb \<Rightarrow>
             (case a of
                Like (ExtDType e) \<Rightarrow> Inr (issubclass (ext_type e) tb)
              | _ \<Rightarrow>
                  (case sctype_of a of
                     Inl e \<Rightarrow> Inl e
                   | Inr ta \<Rightarrow> Inr (issubclass ta tb))))
      else
        (case b of
           Like (ExtDType eb) \<Rightarrow>
             Inr (case a of Like (ExtDType ea) \<Rightarrow> ea = eb | _ \<Rightarrow> False)
         | _ \<Rightarrow>
             (case sctype_of (case a of Like (ExtDType ea) \<Rightarrow> Class (ext_type ea) | _ \<Rightarrow> a) of
                Inl e \<Rightarrow> Inl e
              | Inr a_sctype \<Rightarrow>
                  (case sctype_of b of
                     Inl e \<Rightarrow> Inl e
                   | Inr b_sctype \<Rightarrow>
                       if a_sctype \<in> set custom_float_scalar_types then
                         Inr (b_sctype \<in> set [a_sctype, Floating, Inexact, Number, Generic])
                       else if a_sctype = ScalarOf Int4 then
                         Inr (b_sctype \<in> set [a_sctype, SignedInteger, Integer, Number, Generic])
                       else if a_sctype = ScalarOf UInt4 then
                         Inr (b_sctype \<in> set [a_sctype, UnsignedInteger, Integer, Number, Generic])
                       else Inr (np_issubdtype a_sctype b_sctype)))))"

section \<open>Canonicalization\<close>

text \<open>A dtype object as the module returns it: \<open>DType | ExtendedDType\<close>.\<close>

datatype xdtype = Np dtype | Ext extdtype

definition dtype_to_32bit_dtype :: "dtype \<Rightarrow> dtype option" where
  "dtype_to_32bit_dtype =
     map_of [(Int64, Int32), (UInt64, UInt32), (Float64, Float32), (Complex128, Complex64)]"

text \<open>
  \<open>_canonicalize_dtype\<close>. In the extended branch the source returns its argument;
  only an \<open>ExtendedDType\<close> instance passes the test \<open>issubdtype(dtype, extended)\<close>
  of this model's inputs.
\<close>

definition priv_canonicalize_dtype :: "bool \<Rightarrow> bool \<Rightarrow> dtypelike \<Rightarrow> error + xdtype" where
  "priv_canonicalize_dtype x64_enabled allow_extended_dtype dtype =
     (case issubdtype (Like dtype) (Class Extended) of
        Inl e \<Rightarrow> Inl e
      | Inr is_extended \<Rightarrow>
          if is_extended then
            (if \<not> allow_extended_dtype then Inl (ValueError ExtendedNotAllowed)
             else (case dtype of
                     ExtDType e \<Rightarrow> Inr (Ext e)
                   | _ \<Rightarrow> (case np_dtype dtype of Inl e \<Rightarrow> Inl e | Inr d \<Rightarrow> Inr (Np d))))
          else
            (case np_dtype dtype of
               Inl e \<Rightarrow> Inl e
             | Inr dtype' \<Rightarrow>
                 if x64_enabled then Inr (Np dtype')
                 else Inr (Np (case dtype_to_32bit_dtype dtype' of
                                 Some d32 \<Rightarrow> d32
                               | None \<Rightarrow> dtype'))))"

definition canonicalize_dtype :: "config \<Rightarrow> dtypelike \<Rightarrow> bool \<Rightarrow> error + xdtype" where
  "canonicalize_dtype cfg dtype allow_extended_dtype =
     priv_canonicalize_dtype (enable_x64 cfg) allow_extended_dtype dtype"

definition like_of :: "xdtype \<Rightarrow> dtypelike" where
  "like_of dt = (case dt of Np d \<Rightarrow> DTypeObj d | Ext e \<Rightarrow> ExtDType e)"

section \<open>\<open>promote_types\<close>\<close>

text \<open>
  \<open>a if any(a is t for t in _weak_types) else np.dtype(a)\<close>: the weak types are
  recognised by identity, everything else is converted to a dtype.
\<close>

definition promotion_node :: "dtypelike \<Rightarrow> error + jaxtype" where
  "promotion_node a =
     (case a of
        PyClass t \<Rightarrow>
          if t \<in> set weak_types then Inr (PyType t)
          else (case np_dtype a of Inl e \<Rightarrow> Inl e | Inr d \<Rightarrow> Inr (DT d))
      | _ \<Rightarrow> (case np_dtype a of Inl e \<Rightarrow> Inl e | Inr d \<Rightarrow> Inr (DT d)))"

text \<open>A lattice node as an argument of \<open>np.dtype\<close> or \<open>dtype\<close>: the object is the same.\<close>

definition node_like :: "jaxtype \<Rightarrow> dtypelike" where
  "node_like n = (case n of PyType t \<Rightarrow> PyClass t | DT d \<Rightarrow> DTypeObj d | EXT e \<Rightarrow> ExtDType e)"

definition promote_types :: "config \<Rightarrow> dtypelike \<Rightarrow> dtypelike \<Rightarrow> error + dtype" where
  "promote_types cfg a b =
     (case promotion_node a of
        Inl e \<Rightarrow> Inl e
      | Inr a_tp \<Rightarrow>
          (case promotion_node b of
             Inl e \<Rightarrow> Inl e
           | Inr b_tp \<Rightarrow>
               (case least_upper_bound cfg (numpy_dtype_promotion cfg) [a_tp, b_tp] of
                  Inl e \<Rightarrow> Inl e
                | Inr r \<Rightarrow> np_dtype (node_like r))))"

section \<open>Operands and their dtypes\<close>

text \<open>
  What \<open>dtype\<close>, \<open>result_type\<close> and \<open>safe_to_cast\<close> are given: \<open>None\<close>; a Python
  scalar class; a Python scalar (only its type matters); a concrete NumPy scalar
  class; a dtype object; a value that carries a NumPy dtype, with the \<open>weak_type\<close> of
  its \<open>aval\<close> (\<open>False\<close> for a value without an \<open>aval\<close>, such as a NumPy array);
  a value whose \<open>dtype\<close> attribute is an \<open>ExtendedDType\<close> (never weakly typed);
  an \<open>ExtendedDType\<close> instance itself, which has no \<open>dtype\<close> attribute.
\<close>

datatype operand =
    ONone
  | OPyClass pyscalar
  | OPyLit pyscalar
  | OScalarType dtype
  | ODType dtype
  | OArray dtype bool
  | OExtArray extdtype
  | OExtDType extdtype

definition jax_dtype_set :: "dtype list" where
  "jax_dtype_set = bool_types @ int_types @ float_types @ complex_types"

definition is_weakly_typed :: "operand \<Rightarrow> bool" where
  "is_weakly_typed x =
     (case x of
        OArray d w \<Rightarrow> w
      | OPyLit t \<Rightarrow> t \<in> set weak_types
      | _ \<Rightarrow> False)"

text \<open>\<open>getattr(x, 'dtype', None)\<close>\<close>

definition getattr_dtype :: "operand \<Rightarrow> dtypelike" where
  "getattr_dtype x =
     (case x of
        OArray d w \<Rightarrow> DTypeObj d
      | OExtArray e \<Rightarrow> ExtDType e
      | _ \<Rightarrow> DNone)"

text \<open>\<open>np.result_type(x)\<close> of one argument, for what reaches it.\<close>

definition np_result_type :: "operand \<Rightarrow> error + dtype" where
  "np_result_type x =
     (case x of
        ODType d \<Rightarrow> Inr d
      | OArray d w \<Rightarrow> Inr d
      | _ \<Rightarrow> Inl TypeError)"

definition dtype :: "config \<Rightarrow> operand \<Rightarrow> bool \<Rightarrow> error + xdtype" where
  "dtype cfg x canonicalize =
     (case x of
        ONone \<Rightarrow> Inl (ValueError InvalidDtypeArgument)
      | OScalarType d \<Rightarrow> Inr (Np d)
      | _ \<Rightarrow>
          (case (case x of
                   OPyClass t \<Rightarrow> Inr (Np (python_scalar_dtypes t))
                 | OPyLit t \<Rightarrow> Inr (Np (python_scalar_dtypes t))
                 | _ \<Rightarrow>
                     (case issubdtype (Like (getattr_dtype x)) (Class Extended) of
                        Inl e \<Rightarrow> Inl e
                      | Inr True \<Rightarrow>
                          (case x of OExtArray e \<Rightarrow> Inr (Ext e) | _ \<Rightarrow> Inl AttributeError)
                      | Inr False \<Rightarrow>
                          (case np_result_type x of
                             Inl e \<Rightarrow> Inl TypeError
                           | Inr d \<Rightarrow> Inr (Np d)))) of
             Inl e \<Rightarrow> Inl e
           | Inr dt \<Rightarrow>
               (case issubdtype (Like (like_of dt)) (Class Extended) of
                  Inl e \<Rightarrow> Inl e
                | Inr dt_extended \<Rightarrow>
                    if (case dt of Np d \<Rightarrow> d \<notin> set jax_dtype_set | Ext e \<Rightarrow> True)
                       \<and> \<not> dt_extended
                    then Inl TypeError
                    else if canonicalize then canonicalize_dtype cfg (like_of dt) True
                    else Inr dt)))"

text \<open>\<open>type(dtype.type(0).item())\<close> for a NumPy dtype.\<close>

definition scalar_item_type :: "dtype \<Rightarrow> pyscalar" where
  "scalar_item_type d =
     (if d = Bool then PyBool
      else if d \<in> set int_types then PyInt
      else if d \<in> set float_types then PyFloat
      else PyComplex)"

definition jax_type :: "xdtype \<Rightarrow> bool \<Rightarrow> error + jaxtype" where
  "jax_type dt weak_type =
     (case dt of
        Np d \<Rightarrow>
          if weak_type then
            (if d = Bool then Inr (DT d)
             else if d \<in> set custom_float_dtypes then Inr (PyType PyFloat)
             else Inr (PyType (scalar_item_type d)))
          else Inr (DT d)
      | Ext e \<Rightarrow> if weak_type then Inl TypeError else Inr (EXT e))"

definition dtype_and_weaktype :: "config \<Rightarrow> operand \<Rightarrow> error + (xdtype \<times> bool)" where
  "dtype_and_weaktype cfg v =
     (case dtype cfg v False of
        Inl e \<Rightarrow> Inl e
      | Inr dt \<Rightarrow>
          Inr (dt, (case v of OPyClass t \<Rightarrow> t \<in> set weak_types | _ \<Rightarrow> False)
                   \<or> is_weakly_typed v))"

text \<open>A comprehension whose body may raise: the first error wins.\<close>

fun map_err :: "('a \<Rightarrow> error + 'b) \<Rightarrow> 'a list \<Rightarrow> error + 'b list" where
  "map_err f [] = Inr []"
| "map_err f (x # xs) =
     (case f x of
        Inl e \<Rightarrow> Inl e
      | Inr y \<Rightarrow> (case map_err f xs of Inl e \<Rightarrow> Inl e | Inr ys \<Rightarrow> Inr (y # ys)))"

definition node_operand :: "jaxtype \<Rightarrow> operand" where
  "node_operand n = (case n of PyType t \<Rightarrow> OPyClass t | DT d \<Rightarrow> ODType d | EXT e \<Rightarrow> OExtDType e)"

text \<open>
  \<open>_lattice_result_type\<close>: first the \<open>if\<close>/\<open>elif\<close> chain that sets \<open>out_dtype\<close>
  and \<open>out_weak_type\<close>, then the \<open>return\<close> line.
\<close>

definition lattice_result_type_chain :: "config \<Rightarrow> operand list \<Rightarrow> error + (xdtype \<times> bool)" where
  "lattice_result_type_chain cfg args =
     (case map_err (dtype_and_weaktype cfg) args of
        Inl e \<Rightarrow> Inl e
      | Inr [] \<Rightarrow> Inl (ValueError NotEnoughValues)
      | Inr (p # ps) \<Rightarrow>
          (let dtypes = map fst (p # ps); weak_flags = map snd (p # ps) in
           if length dtypes = 1 then Inr (fst p, snd p)
           else if length (remdups dtypes) = 1 \<and> \<not> list_all (\<lambda>w. w) weak_flags
             then Inr (fst p, False)
           else if list_all (\<lambda>w. w) weak_flags \<and> numpy_dtype_promotion cfg \<noteq> ''strict''
             then
               (case map_err (\<lambda>dt. jax_type dt False) dtypes of
                  Inl e \<Rightarrow> Inl e
                | Inr nodes \<Rightarrow>
                    (case least_upper_bound cfg (numpy_dtype_promotion cfg) (remdups nodes) of
                       Inl e \<Rightarrow> Inl e
                     | Inr result_type \<Rightarrow>
                         (case dtype cfg (node_operand result_type) False of
                            Inl e \<Rightarrow> Inl e
                          | Inr out_dtype \<Rightarrow> Inr (out_dtype, True))))
           else
             (case map_err (\<lambda>(d, w). jax_type d w) (p # ps) of
                Inl e \<Rightarrow> Inl e
              | Inr nodes \<Rightarrow>
                  (case least_upper_bound cfg (numpy_dtype_promotion cfg) (remdups nodes) of
                     Inl e \<Rightarrow> Inl e
                   | Inr result_type \<Rightarrow>
                       (case dtype cfg (node_operand result_type) False of
                          Inl e \<Rightarrow> Inl e
                        | Inr out_dtype \<Rightarrow>
                            Inr (out_dtype, result_type \<in> set (map PyType weak_types)))))))"

definition lattice_result_type :: "config \<Rightarrow> operand list \<Rightarrow> error + (xdtype \<times> bool)" where
  "lattice_result_type cfg args =
     (case lattice_result_type_chain cfg args of
        Inl e \<Rightarrow> Inl e
      | Inr (out_dtype, out_weak_type) \<Rightarrow>
          Inr (out_dtype, out_dtype \<noteq> Np Bool \<and> out_weak_type))"

section \<open>\<open>result_type\<close> and \<open>safe_to_cast\<close>\<close>

text \<open>The default types, chosen by \<open>config.default_dtype_bits\<close> when the module is loaded.\<close>

definition int_default :: "config \<Rightarrow> dtype" where
  "int_default cfg = (if default_dtype_bits cfg = ''32'' then Int32 else Int64)"

definition uint_default :: "config \<Rightarrow> dtype" where
  "uint_default cfg = (if default_dtype_bits cfg = ''32'' then UInt32 else UInt64)"

definition float_default :: "config \<Rightarrow> dtype" where
  "float_default cfg = (if default_dtype_bits cfg = ''32'' then Float32 else Float64)"

definition complex_default :: "config \<Rightarrow> dtype" where
  "complex_default cfg = (if default_dtype_bits cfg = ''32'' then Complex64 else Complex128)"

definition default_types :: "config \<Rightarrow> char \<Rightarrow> dtype option" where
  "default_types cfg =
     map_of [(CHR ''b'', Bool), (CHR ''i'', int_default cfg), (CHR ''u'', uint_default cfg),
             (CHR ''f'', float_default cfg), (CHR ''c'', complex_default cfg)]"

text \<open>
  \<open>dtype.kind\<close>: one of \<open>biufc\<close> for NumPy's own dtypes; \<open>ml_dtypes\<close> registers its
  dtypes with the kind \<open>V\<close>.
\<close>

definition kind :: "dtype \<Rightarrow> char" where
  "kind d =
     (if d = Bool then CHR ''b''
      else if d \<in> set [UInt8, UInt16, UInt32, UInt64] then CHR ''u''
      else if d \<in> set [Int8, Int16, Int32, Int64] then CHR ''i''
      else if d \<in> set [Float16, Float32, Float64] then CHR ''f''
      else if d \<in> set [Complex64, Complex128] then CHR ''c''
      else CHR ''V'')"

text \<open>The body of \<open>result_type\<close> up to the choice of what to return.\<close>

definition result_type_pair :: "config \<Rightarrow> operand list \<Rightarrow> error + (xdtype \<times> bool)" where
  "result_type_pair cfg args =
     (if length args = 0 then Inl (ValueError NoArguments)
      else
        (case lattice_result_type cfg
                (map (\<lambda>arg. if arg = ONone then OScalarType (float_default cfg) else arg) args) of
           Inl e \<Rightarrow> Inl e
         | Inr (dt, weak_type) \<Rightarrow>
             if weak_type then
               (case dt of
                  Ext e \<Rightarrow> Inl AttributeError
                | Np d \<Rightarrow>
                    (case default_types cfg
                            (if d \<in> set custom_float_dtypes then CHR ''f'' else kind d) of
                       None \<Rightarrow> Inl KeyError
                     | Some t \<Rightarrow>
                         (case canonicalize_dtype cfg (ScalarType t) False of
                            Inl e \<Rightarrow> Inl e
                          | Inr dt' \<Rightarrow> Inr (dt', weak_type))))
             else
               (case canonicalize_dtype cfg (like_of dt) True of
                  Inl e \<Rightarrow> Inl e
                | Inr dt' \<Rightarrow> Inr (dt', weak_type))))"

datatype result = Dtype xdtype | DtypeAndWeak xdtype bool

definition result_type :: "config \<Rightarrow> operand list \<Rightarrow> bool \<Rightarrow> error + result" where
  "result_type cfg args return_weak_type_flag =
     (case result_type_pair cfg args of
        Inl e \<Rightarrow> Inl e
      | Inr (dt, weak_type) \<Rightarrow>
          Inr (if return_weak_type_flag then DtypeAndWeak dt weak_type else Dtype dt))"

definition dtype_operand :: "xdtype \<Rightarrow> operand" where
  "dtype_operand dt = (case dt of Np d \<Rightarrow> ODType d | Ext e \<Rightarrow> OExtDType e)"

definition safe_to_cast :: "config \<Rightarrow> operand \<Rightarrow> operand \<Rightarrow> error + bool" where
  "safe_to_cast cfg input_dtype_or_value output_dtype_or_value =
     (case dtype cfg input_dtype_or_value True of
        Inl e \<Rightarrow> Inl e
      | Inr input_dtype \<Rightarrow>
          (case dtype cfg output_dtype_or_value True of
             Inl e \<Rightarrow> Inl e
           | Inr output_dtype \<Rightarrow>
               if input_dtype = output_dtype then Inr True
               else
                 (case result_type cfg [input_dtype_or_value, dtype_operand output_dtype] False of
                    Inl e \<Rightarrow> Inl e
                  | Inr r \<Rightarrow> Inr (r = Dtype output_dtype))))"

section \<open>The reference definition of the least upper bound\<close>

text \<open>
  The sets of the comment in \<open>_least_upper_bound\<close>, read off a dict \<open>UB\<close> of upper
  bounds: \<open>UB(n)\<close>, the common upper bounds \<open>CUB(N) = {a | \<forall>b \<in> N: a \<in> UB(b)}\<close> and
  \<open>LUB(N) = {c \<in> CUB(N) | CUB(N) \<subseteq> UB(c)}\<close>.
\<close>

definition UB_ref :: "upper_bounds \<Rightarrow> jaxtype \<Rightarrow> jaxtype set" where
  "UB_ref UB n = (case map_of UB n of None \<Rightarrow> {} | Some ub \<Rightarrow> set ub)"

definition CUB_ref :: "upper_bounds \<Rightarrow> jaxtype set \<Rightarrow> jaxtype set" where
  "CUB_ref UB N = (\<Inter>b\<in>N. UB_ref UB b)"

definition LUB_ref :: "upper_bounds \<Rightarrow> jaxtype set \<Rightarrow> jaxtype set" where
  "LUB_ref UB N = {c \<in> CUB_ref UB N. CUB_ref UB N \<subseteq> UB_ref UB c}"

section \<open>The two lattices and their upper bounds, computed\<close>

text \<open>
  The values of the two dicts of \<open>_lattice_upper_bounds\<close>, written out; that the
  construction yields them is \<open>make_lattice_upper_bounds_standard\<close> and
  \<open>make_lattice_upper_bounds_strict\<close> below.
\<close>

definition standard_upper_bounds :: upper_bounds where
  "standard_upper_bounds =
     [(DT Bool, [DT Bool, PyType PyInt, DT UInt4, DT Int4, DT Int8, DT UInt8, DT UInt16, DT
     Int16, DT UInt32, DT Int32, DT UInt64, DT Int64, PyType PyFloat, PyType PyComplex, DT
     Float16, DT BFloat16, DT Float8_e5m2fnuz, DT Float8_e5m2, DT Float8_e4m3fnuz, DT
     Float8_e4m3fn, DT Float8_e4m3b11fnuz, DT Float32, DT Complex128, DT Complex64, DT Float64]),
     (DT UInt8, [DT UInt8, DT UInt16, DT Int16, DT UInt32, DT Int32, DT UInt64, DT Int64, PyType
     PyFloat, PyType PyComplex, DT Float16, DT BFloat16, DT Float8_e5m2fnuz, DT Float8_e5m2, DT
     Float8_e4m3fnuz, DT Float8_e4m3fn, DT Float8_e4m3b11fnuz, DT Float32, DT Complex128, DT
     Complex64, DT Float64]), (DT UInt16, [DT UInt16, DT UInt32, DT Int32, DT UInt64, DT Int64,
     PyType PyFloat, PyType PyComplex, DT Float16, DT BFloat16, DT Float8_e5m2fnuz, DT
     Float8_e5m2, DT Float8_e4m3fnuz, DT Float8_e4m3fn, DT Float8_e4m3b11fnuz, DT Float32, DT
     Complex128, DT Complex64, DT Float64]), (DT UInt32, [DT UInt32, DT UInt64, DT Int64, PyType
     PyFloat, PyType PyComplex, DT Float16, DT BFloat16, DT Float8_e5m2fnuz, DT Float8_e5m2, DT
     Float8_e4m3fnuz, DT Float8_e4m3fn, DT Float8_e4m3b11fnuz, DT Float32, DT Complex128, DT
     Complex64, DT Float64]), (DT UInt64, [DT UInt64, PyType PyFloat, PyType PyComplex, DT
     Float16, DT BFloat16, DT Float8_e5m2fnuz, DT Float8_e5m2, DT Float8_e4m3fnuz, DT
     Float8_e4m3fn, DT Float8_e4m3b11fnuz, DT Float32, DT Complex128, DT Complex64, DT Float64]),
     (PyType PyInt, [PyType PyInt, DT UInt4, DT Int4, DT Int8, DT UInt8, DT UInt16, DT Int16, DT
     UInt32, DT Int32, DT UInt64, DT Int64, PyType PyFloat, PyType PyComplex, DT Float16, DT
     BFloat16, DT Float8_e5m2fnuz, DT Float8_e5m2, DT Float8_e4m3fnuz, DT Float8_e4m3fn, DT
     Float8_e4m3b11fnuz, DT Float32, DT Complex128, DT Complex64, DT Float64]), (DT Int8, [DT
     Int8, DT Int16, DT Int32, DT Int64, PyType PyFloat, PyType PyComplex, DT Float16, DT
     BFloat16, DT Float8_e5m2fnuz, DT Float8_e5m2, DT Float8_e4m3fnuz, DT Float8_e4m3fn, DT
     Float8_e4m3b11fnuz, DT Float32, DT Complex128, DT Complex64, DT Float64]), (DT Int16, [DT
     Int16, DT Int32, DT Int64, PyType PyFloat, PyType PyComplex, DT Float16, DT BFloat16, DT
     Float8_e5m2fnuz, DT Float8_e5m2, DT Float8_e4m3fnuz, DT Float8_e4m3fn, DT
     Float8_e4m3b11fnuz, DT Float32, DT Complex128, DT Complex64, DT Float64]), (DT Int32, [DT
     Int32, DT Int64, PyType PyFloat, PyType PyComplex, DT Float16, DT BFloat16, DT
     Float8_e5m2fnuz, DT Float8_e5m2, DT Float8_e4m3fnuz, DT Float8_e4m3fn, DT
     Float8_e4m3b11fnuz, DT Float32, DT Complex128, DT Complex64, DT Float64]), (DT Int64, [DT
     Int64, PyType PyFloat, PyType PyComplex, DT Float16, DT BFloat16, DT Float8_e5m2fnuz, DT
     Float8_e5m2, DT Float8_e4m3fnuz, DT Float8_e4m3fn, DT Float8_e4m3b11fnuz, DT Float32, DT
     Complex128, DT Complex64, DT Float64]), (PyType PyFloat, [PyType PyFloat, PyType PyComplex,
     DT Float16, DT BFloat16, DT Float8_e5m2fnuz, DT Float8_e5m2, DT Float8_e4m3fnuz, DT
     Float8_e4m3fn, DT Float8_e4m3b11fnuz, DT Float32, DT Complex128, DT Complex64, DT Float64]),
     (DT Float8_e4m3b11fnuz, [DT Float8_e4m3b11fnuz]), (DT Float8_e4m3fn, [DT Float8_e4m3fn]),
     (DT Float8_e4m3fnuz, [DT Float8_e4m3fnuz]), (DT Float8_e5m2, [DT Float8_e5m2]), (DT
     Float8_e5m2fnuz, [DT Float8_e5m2fnuz]), (DT BFloat16, [DT BFloat16, DT Float32, DT
     Complex64, DT Float64, DT Complex128]), (DT Float16, [DT Float16, DT Float32, DT Complex64,
     DT Float64, DT Complex128]), (DT Float32, [DT Float32, DT Complex64, DT Float64, DT
     Complex128]), (DT Float64, [DT Float64, DT Complex128]), (PyType PyComplex, [PyType
     PyComplex, DT Complex64, DT Complex128]), (DT Complex64, [DT Complex64, DT Complex128]), (DT
     Complex128, [DT Complex128]), (DT Int4, [DT Int4]), (DT UInt4, [DT UInt4])]"

definition strict_upper_bounds :: upper_bounds where
  "strict_upper_bounds =
     [(PyType PyInt, [PyType PyInt, DT Int64, DT Int32, DT Int16, DT Int8, DT Int4, DT UInt64, DT
     UInt32, DT UInt16, DT UInt8, DT UInt4, PyType PyFloat, DT Float64, DT Float32, DT Float16,
     DT BFloat16, DT Float8_e5m2fnuz, DT Float8_e5m2, DT Float8_e4m3fnuz, DT Float8_e4m3fn, DT
     Float8_e4m3b11fnuz, PyType PyComplex, DT Complex128, DT Complex64]), (PyType PyFloat,
     [PyType PyFloat, DT Float64, DT Float32, DT Float16, DT BFloat16, DT Float8_e5m2fnuz, DT
     Float8_e5m2, DT Float8_e4m3fnuz, DT Float8_e4m3fn, DT Float8_e4m3b11fnuz, PyType PyComplex,
     DT Complex128, DT Complex64]), (PyType PyComplex, [PyType PyComplex, DT Complex128, DT
     Complex64]), (DT Bool, [DT Bool]), (DT UInt4, [DT UInt4]), (DT UInt8, [DT UInt8]), (DT
     UInt16, [DT UInt16]), (DT UInt32, [DT UInt32]), (DT UInt64, [DT UInt64]), (DT Int4, [DT
     Int4]), (DT Int8, [DT Int8]), (DT Int16, [DT Int16]), (DT Int32, [DT Int32]), (DT Int64, [DT
     Int64]), (DT Float8_e4m3b11fnuz, [DT Float8_e4m3b11fnuz]), (DT Float8_e4m3fn, [DT
     Float8_e4m3fn]), (DT Float8_e4m3fnuz, [DT Float8_e4m3fnuz]), (DT Float8_e5m2, [DT
     Float8_e5m2]), (DT Float8_e5m2fnuz, [DT Float8_e5m2fnuz]), (DT BFloat16, [DT BFloat16]), (DT
     Float16, [DT Float16]), (DT Float32, [DT Float32]), (DT Float64, [DT Float64]), (DT
     Complex64, [DT Complex64]), (DT Complex128, [DT Complex128])]"

lemma type_promotion_lattice_standard:
  "type_promotion_lattice ''standard'' =
     Inr [(DT Bool, [PyType PyInt]), (DT UInt8, [DT Int16, DT UInt16]), (DT UInt16, [DT Int32, DT
     UInt32]), (DT UInt32, [DT Int64, DT UInt64]), (DT UInt64, [PyType PyFloat]), (PyType PyInt,
     [DT UInt8, DT Int8, DT Int4, DT UInt4]), (DT Int8, [DT Int16]), (DT Int16, [DT Int32]), (DT
     Int32, [DT Int64]), (DT Int64, [PyType PyFloat]), (PyType PyFloat, [DT Float8_e4m3b11fnuz,
     DT Float8_e4m3fn, DT Float8_e4m3fnuz, DT Float8_e5m2, DT Float8_e5m2fnuz, DT BFloat16, DT
     Float16, PyType PyComplex]), (DT Float8_e4m3b11fnuz, []), (DT Float8_e4m3fn, []), (DT
     Float8_e4m3fnuz, []), (DT Float8_e5m2, []), (DT Float8_e5m2fnuz, []), (DT BFloat16, [DT
     Float32]), (DT Float16, [DT Float32]), (DT Float32, [DT Float64, DT Complex64]), (DT
     Float64, [DT Complex128]), (PyType PyComplex, [DT Complex64]), (DT Complex64, [DT
     Complex128]), (DT Complex128, []), (DT Int4, []), (DT UInt4, [])]"
  by (simp add: type_promotion_lattice_def dict_append_def float8_dtypes_def Let_def)

lemma type_promotion_lattice_strict:
  "type_promotion_lattice ''strict'' =
     Inr [(PyType PyInt, [PyType PyFloat, DT UInt4, DT UInt8, DT UInt16, DT UInt32, DT UInt64, DT
     Int4, DT Int8, DT Int16, DT Int32, DT Int64]), (PyType PyFloat, [PyType PyComplex, DT
     Float8_e4m3b11fnuz, DT Float8_e4m3fn, DT Float8_e4m3fnuz, DT Float8_e5m2, DT
     Float8_e5m2fnuz, DT BFloat16, DT Float16, DT Float32, DT Float64]), (PyType PyComplex, [DT
     Complex64, DT Complex128]), (DT Bool, []), (DT UInt4, []), (DT UInt8, []), (DT UInt16, []),
     (DT UInt32, []), (DT UInt64, []), (DT Int4, []), (DT Int8, []), (DT Int16, []), (DT Int32,
     []), (DT Int64, []), (DT Float8_e4m3b11fnuz, []), (DT Float8_e4m3fn, []), (DT
     Float8_e4m3fnuz, []), (DT Float8_e5m2, []), (DT Float8_e5m2fnuz, []), (DT BFloat16, []), (DT
     Float16, []), (DT Float32, []), (DT Float64, []), (DT Complex64, []), (DT Complex128, [])]"
  by (simp add: type_promotion_lattice_def jax_types_def bool_types_def int_types_def
      float_types_def complex_types_def custom_float_dtypes_def Let_def)

lemma make_lattice_upper_bounds_standard:
  "make_lattice_upper_bounds ''standard'' = Inr standard_upper_bounds"
  by (simp add: make_lattice_upper_bounds_def type_promotion_lattice_standard
      upper_bounds_of_lattice_def upper_bounds_loop.simps List.union_def List.insert_def
      standard_upper_bounds_def)

lemma make_lattice_upper_bounds_strict:
  "make_lattice_upper_bounds ''strict'' = Inr strict_upper_bounds"
  by (simp add: make_lattice_upper_bounds_def type_promotion_lattice_strict
      upper_bounds_of_lattice_def upper_bounds_loop.simps List.union_def List.insert_def
      strict_upper_bounds_def)

lemma lattice_upper_bounds_eq:
  "lattice_upper_bounds =
     Inr [(''standard'', standard_upper_bounds), (''strict'', strict_upper_bounds)]"
  by (simp add: lattice_upper_bounds_def make_lattice_upper_bounds_standard
      make_lattice_upper_bounds_strict)

lemma least_upper_bound_standard:
  "least_upper_bound cfg ''standard'' nodes =
     least_upper_bound_on [(''standard'', standard_upper_bounds)] cfg ''standard'' nodes"
  by (simp add: least_upper_bound_def lattice_upper_bounds_eq least_upper_bound_on_def)

lemma least_upper_bound_strict:
  "least_upper_bound cfg ''strict'' nodes =
     least_upper_bound_on [(''strict'', strict_upper_bounds)] cfg ''strict'' nodes"
  by (simp add: least_upper_bound_def lattice_upper_bounds_eq least_upper_bound_on_def)

section \<open>The solver against the reference definition\<close>

lemma lookup_bounds_known:
  "set ns \<subseteq> dom (map_of UB) \<Longrightarrow> lookup_bounds UB ns = Some (map (\<lambda>n. the (map_of UB n)) ns)"
  by (induction ns) (auto split: option.splits)

lemma lookup_bounds_SomeD:
  "lookup_bounds UB ns = Some bs \<Longrightarrow> set ns \<subseteq> dom (map_of UB)"
  by (induction ns arbitrary: bs) (auto split: option.splits)

lemma fold_filter_set:
  "set (fold (\<lambda>c acc. filter (\<lambda>x. x \<in> set c) acc) bs xs) = set xs \<inter> (\<Inter>b\<in>set bs. set b)"
  by (induction bs arbitrary: xs) auto

lemma fold_filter_distinct:
  "distinct xs \<Longrightarrow> distinct (fold (\<lambda>c acc. filter (\<lambda>x. x \<in> set c) acc) bs xs)"
  by (induction bs arbitrary: xs) auto

lemma set_intersection_known:
  assumes "ns \<noteq> []" and "set ns \<subseteq> dom (map_of UB)"
  shows "\<exists>CUB. set_intersection (map (\<lambda>n. the (map_of UB n)) ns) = Inr CUB
           \<and> distinct CUB \<and> set CUB = CUB_ref UB (set ns)"
proof -
  from assms(1) obtain n ms where ns: "ns = n # ms" by (cases ns) auto
  have ub: "UB_ref UB m = set (the (map_of UB m))" if "m \<in> set ns" for m
    using that assms(2) by (auto simp: UB_ref_def dom_def)
  have "set (fold (\<lambda>c acc. filter (\<lambda>x. x \<in> set c) acc) (map (\<lambda>n. the (map_of UB n)) ms)
             (remdups (the (map_of UB n)))) = CUB_ref UB (set ns)"
    using ub by (auto simp: fold_filter_set CUB_ref_def ns)
  then show ?thesis
    by (simp add: ns fold_filter_distinct)
qed

lemma lub_candidates_known:
  "set cs \<subseteq> dom (map_of UB) \<Longrightarrow>
     lub_candidates UB CUB cs = Inr (filter (\<lambda>c. set CUB \<subseteq> UB_ref UB c) cs)"
  by (induction cs) (auto simp: UB_ref_def split: option.splits)

lemma least_upper_bound_on_char:
  assumes tab: "map_of tables p = Some UB"
    and ne: "nodes \<noteq> []"
    and known: "set nodes \<subseteq> dom (map_of UB)"
    and closed: "CUB_ref UB (set nodes) \<subseteq> dom (map_of UB)"
  shows "\<exists>LUB. distinct LUB
      \<and> set LUB = (if CUB_ref UB (set nodes) \<inter> set nodes \<noteq> {}
                   then CUB_ref UB (set nodes) \<inter> set nodes
                   else LUB_ref UB (set nodes))
      \<and> least_upper_bound_on tables cfg p nodes =
          (case LUB of
             [] \<Rightarrow> Inl (TypePromotionError (no_promotion_path_msg cfg nodes))
           | [c] \<Rightarrow> Inr c
           | c # d # r \<Rightarrow> Inl (TypePromotionError InternalMsg))"
proof -
  let ?N = "remdups nodes"
  have ne': "?N \<noteq> []" using ne by (cases nodes) auto
  have known': "set ?N \<subseteq> dom (map_of UB)" using known by simp
  from set_intersection_known [OF ne' known'] obtain CUB where
    si: "set_intersection (map (\<lambda>n. the (map_of UB n)) ?N) = Inr CUB"
    and dist: "distinct CUB" and cub: "set CUB = CUB_ref UB (set nodes)"
    by auto
  have lb: "lookup_bounds UB ?N = Some (map (\<lambda>n. the (map_of UB n)) ?N)"
    by (rule lookup_bounds_known [OF known'])
  have cand: "lub_candidates UB CUB CUB = Inr (filter (\<lambda>c. set CUB \<subseteq> UB_ref UB c) CUB)"
    by (rule lub_candidates_known) (use cub closed in simp)
  define LUB where "LUB = (if filter (\<lambda>c. c \<in> set ?N) CUB \<noteq> []
      then filter (\<lambda>c. c \<in> set ?N) CUB else filter (\<lambda>c. set CUB \<subseteq> UB_ref UB c) CUB)"
  have d: "distinct LUB" using dist by (simp add: LUB_def)
  have nonempty: "filter (\<lambda>c. c \<in> set ?N) CUB \<noteq> [] \<longleftrightarrow> CUB_ref UB (set nodes) \<inter> set nodes \<noteq> {}"
    using cub by (auto simp: filter_empty_conv)
  have s: "set LUB = (if CUB_ref UB (set nodes) \<inter> set nodes \<noteq> {}
                   then CUB_ref UB (set nodes) \<inter> set nodes
                   else LUB_ref UB (set nodes))"
    unfolding LUB_def nonempty using cub by (auto simp: LUB_ref_def)
  have r: "least_upper_bound_on tables cfg p nodes =
          (case LUB of
             [] \<Rightarrow> Inl (TypePromotionError (no_promotion_path_msg cfg nodes))
           | [c] \<Rightarrow> Inr c
           | c # d # r \<Rightarrow> Inl (TypePromotionError InternalMsg))"
    unfolding least_upper_bound_on_def Let_def
    by (simp add: tab lb si cand LUB_def split: list.splits)
  from d s r show ?thesis by blast
qed

section \<open>Auxiliary facts about the tables and the solver\<close>

lemma issubdtype_extended_like:
  "issubdtype (Like l) (Class Extended) =
     Inr (case l of ExtDType e \<Rightarrow> issubclass (ext_type e) Extended | _ \<Rightarrow> False)"
  by (cases l) (simp_all add: issubdtype_def generic_subclass_def sctype_of_def np_dtype_def
      issubclass_def np_bases_def)

lemma filter_eq_distinct:
  "distinct xs \<Longrightarrow> filter (\<lambda>c. c = n) xs = (if n \<in> set xs then [n] else [])"
  by (induction xs) auto

lemma least_upper_bound_on_same:
  assumes "map_of tables p = Some UB" and "map_of UB n = Some ub" and "n \<in> set ub"
  shows "least_upper_bound_on tables cfg p [n, n] = Inr n"
  using assms
  by (simp add: least_upper_bound_on_def filter_eq_distinct)

lemma least_upper_bound_on_terminal_right:
  assumes "map_of tables p = Some UB" and "map_of UB a = Some ua" and "map_of UB b = Some [b]"
    and "a \<noteq> b"
  shows "least_upper_bound_on tables cfg p [a, b] =
           (if b \<in> set ua then Inr b
            else Inl (TypePromotionError (no_promotion_path_msg cfg [a, b])))"
  using assms
  by (simp add: least_upper_bound_on_def filter_eq_distinct)

lemma least_upper_bound_on_terminal_left:
  assumes "map_of tables p = Some UB" and "map_of UB a = Some [a]" and "map_of UB b = Some ub"
    and "a \<noteq> b"
  shows "least_upper_bound_on tables cfg p [a, b] =
           (if a \<in> set ub then Inr a
            else Inl (TypePromotionError (no_promotion_path_msg cfg [a, b])))"
  using assms
  by (simp add: least_upper_bound_on_def)

lemma standard_upper_bounds_refl_check:
  "list_all (\<lambda>(n, ub). n \<in> set ub) standard_upper_bounds"
  by code_simp

lemma strict_upper_bounds_refl_check:
  "list_all (\<lambda>(n, ub). n \<in> set ub) strict_upper_bounds"
  by code_simp

lemma standard_upper_bounds_keys:
  "map fst standard_upper_bounds =
     [DT Bool, DT UInt8, DT UInt16, DT UInt32, DT UInt64, PyType PyInt, DT Int8, DT Int16,
      DT Int32, DT Int64, PyType PyFloat, DT Float8_e4m3b11fnuz, DT Float8_e4m3fn,
      DT Float8_e4m3fnuz, DT Float8_e5m2, DT Float8_e5m2fnuz, DT BFloat16, DT Float16,
      DT Float32, DT Float64, PyType PyComplex, DT Complex64, DT Complex128, DT Int4, DT UInt4]"
  by (simp add: standard_upper_bounds_def)

lemma strict_upper_bounds_keys:
  "map fst strict_upper_bounds =
     [PyType PyInt, PyType PyFloat, PyType PyComplex, DT Bool, DT UInt4, DT UInt8, DT UInt16,
      DT UInt32, DT UInt64, DT Int4, DT Int8, DT Int16, DT Int32, DT Int64,
      DT Float8_e4m3b11fnuz, DT Float8_e4m3fn, DT Float8_e4m3fnuz, DT Float8_e5m2,
      DT Float8_e5m2fnuz, DT BFloat16, DT Float16, DT Float32, DT Float64, DT Complex64,
      DT Complex128]"
  by (simp add: strict_upper_bounds_def)

lemma refl_of_check:
  assumes "list_all (\<lambda>(n, ub). n \<in> set ub) T" and "map_of T n = Some ub"
  shows "n \<in> set ub"
proof -
  from assms(2) have "(n, ub) \<in> set T" by (rule map_of_SomeD)
  with assms(1) show ?thesis by (auto simp: list_all_iff)
qed

lemma strict_upper_bounds_DT: "map_of strict_upper_bounds (DT d) = Some [DT d]"
  by (cases d) (simp_all add: strict_upper_bounds_def)


lemma standard_upper_bounds_known:
  assumes "case n of DT d \<Rightarrow> True | PyType t \<Rightarrow> t \<noteq> PyBool | EXT e \<Rightarrow> False"
  shows "n \<in> dom (map_of standard_upper_bounds)"
proof (cases n)
  case (PyType t) with assms show ?thesis
    by (cases t) (simp_all add: dom_map_of_conv_image_fst standard_upper_bounds_keys
        del: set_map flip: set_map)
next
  case (DT d) then show ?thesis
    by (cases d) (simp_all add: dom_map_of_conv_image_fst standard_upper_bounds_keys
        del: set_map flip: set_map)
next
  case (EXT e) with assms show ?thesis by simp
qed

lemma strict_upper_bounds_known:
  assumes "case n of DT d \<Rightarrow> True | PyType t \<Rightarrow> t \<noteq> PyBool | EXT e \<Rightarrow> False"
  shows "n \<in> dom (map_of strict_upper_bounds)"
proof (cases n)
  case (PyType t) with assms show ?thesis
    by (cases t) (simp_all add: dom_map_of_conv_image_fst strict_upper_bounds_keys
        del: set_map flip: set_map)
next
  case (DT d) then show ?thesis
    by (cases d) (simp_all add: dom_map_of_conv_image_fst strict_upper_bounds_keys
        del: set_map flip: set_map)
next
  case (EXT e) with assms show ?thesis by simp
qed

lemma promotion_node_valid:
  assumes "np_dtype a = Inr d"
  shows "\<exists>n. promotion_node a = Inr n \<and> np_dtype (node_like n) = Inr d
           \<and> (case n of DT d \<Rightarrow> True | PyType t \<Rightarrow> t \<noteq> PyBool | EXT e \<Rightarrow> False)"
proof (cases a)
  case (PyClass t)
  with assms show ?thesis
    by (cases t) (simp_all add: promotion_node_def node_like_def weak_types_def np_dtype_def)
qed (use assms in \<open>simp_all add: promotion_node_def node_like_def np_dtype_def\<close>)

lemma least_upper_bound_same:
  assumes p: "numpy_dtype_promotion cfg = ''standard'' \<or> numpy_dtype_promotion cfg = ''strict''"
    and n: "case n of DT d \<Rightarrow> True | PyType t \<Rightarrow> t \<noteq> PyBool | EXT e \<Rightarrow> False"
  shows "least_upper_bound cfg (numpy_dtype_promotion cfg) [n, n] = Inr n"
proof -
  from p show ?thesis
  proof
    assume s: "numpy_dtype_promotion cfg = ''standard''"
    from standard_upper_bounds_known [OF n] obtain ub
      where ub: "map_of standard_upper_bounds n = Some ub" by auto
    from refl_of_check [OF standard_upper_bounds_refl_check ub] have "n \<in> set ub" .
    with ub show ?thesis
      by (simp add: s least_upper_bound_standard least_upper_bound_on_same)
  next
    assume s: "numpy_dtype_promotion cfg = ''strict''"
    from strict_upper_bounds_known [OF n] obtain ub
      where ub: "map_of strict_upper_bounds n = Some ub" by auto
    from refl_of_check [OF strict_upper_bounds_refl_check ub] have "n \<in> set ub" .
    with ub show ?thesis
      by (simp add: s least_upper_bound_strict least_upper_bound_on_same)
  qed
qed

lemma canonicalize_dtype_valid:
  assumes "np_dtype a = Inr d"
  shows "canonicalize_dtype cfg a allow =
           Inr (Np (if enable_x64 cfg then d
                    else case dtype_to_32bit_dtype d of Some d32 \<Rightarrow> d32 | None \<Rightarrow> d))"
proof -
  from assms have "issubdtype (Like a) (Class Extended) = Inr False"
    by (cases a) (simp_all add: issubdtype_extended_like np_dtype_def)
  with assms show ?thesis
    by (simp add: canonicalize_dtype_def priv_canonicalize_dtype_def)
qed

lemma least_upper_bound_on_upper_right:
  assumes "map_of tables p = Some UB" and "map_of UB a = Some ua" and "map_of UB b = Some ub"
    and "b \<in> set ua" and "b \<in> set ub" and "a \<notin> set ub"
  shows "least_upper_bound_on tables cfg p [a, b] = Inr b"
proof -
  from assms have ne: "a \<noteq> b" by auto
  have "filter (\<lambda>c. c = a \<or> c = b) (filter (\<lambda>x. x \<in> set ub) (remdups ua))
          = filter (\<lambda>c. c = b) (remdups ua)"
    unfolding filter_filter using assms(5,6) by (intro filter_cong) auto
  also have "\<dots> = [b]" using assms(4) by (simp add: filter_eq_distinct)
  finally show ?thesis
    using assms(1,2,3) ne by (simp add: least_upper_bound_on_def)
qed

lemma least_upper_bound_on_upper_left:
  assumes "map_of tables p = Some UB" and "map_of UB a = Some ua" and "map_of UB b = Some ub"
    and "a \<in> set ua" and "a \<in> set ub" and "b \<notin> set ua"
  shows "least_upper_bound_on tables cfg p [a, b] = Inr a"
proof -
  from assms have ne: "a \<noteq> b" by auto
  have "filter (\<lambda>c. c = a \<or> c = b) (filter (\<lambda>x. x \<in> set ub) (remdups ua))
          = filter (\<lambda>c. c = a) (remdups ua)"
    unfolding filter_filter using assms(5,6) by (intro filter_cong) auto
  also have "\<dots> = [a]" using assms(4) by (simp add: filter_eq_distinct)
  finally show ?thesis
    using assms(1,2,3) ne by (simp add: least_upper_bound_on_def)
qed

lemma standard_upper_bounds_PyInt:
  "map_of standard_upper_bounds (PyType PyInt) =
     Some [PyType PyInt, DT UInt4, DT Int4, DT Int8, DT UInt8, DT UInt16, DT Int16, DT
       UInt32, DT Int32, DT UInt64, DT Int64, PyType PyFloat, PyType PyComplex, DT Float16, DT
       BFloat16, DT Float8_e5m2fnuz, DT Float8_e5m2, DT Float8_e4m3fnuz, DT Float8_e4m3fn, DT
       Float8_e4m3b11fnuz, DT Float32, DT Complex128, DT Complex64, DT Float64]"
  by (simp add: standard_upper_bounds_def)

lemma standard_upper_bounds_UInt8:
  "map_of standard_upper_bounds (DT UInt8) =
     Some [DT UInt8, DT UInt16, DT Int16, DT UInt32, DT Int32, DT UInt64, DT Int64, PyType
       PyFloat, PyType PyComplex, DT Float16, DT BFloat16, DT Float8_e5m2fnuz, DT Float8_e5m2, DT
       Float8_e4m3fnuz, DT Float8_e4m3fn, DT Float8_e4m3b11fnuz, DT Float32, DT Complex128, DT
       Complex64, DT Float64]"
  by (simp add: standard_upper_bounds_def)

lemma standard_upper_bounds_Int64:
  "map_of standard_upper_bounds (DT Int64) =
     Some [DT Int64, PyType PyFloat, PyType PyComplex, DT Float16, DT BFloat16, DT
       Float8_e5m2fnuz, DT Float8_e5m2, DT Float8_e4m3fnuz, DT Float8_e4m3fn, DT
       Float8_e4m3b11fnuz, DT Float32, DT Complex128, DT Complex64, DT Float64]"
  by (simp add: standard_upper_bounds_def)

section \<open>Subtyping is reflexive\<close>

lemma issubclass_refl: "issubclass a a"
  by (cases a) (simp_all add: issubclass_def)

text \<open>
  Claim C9. For every type tag \<open>a\<close> (a dtype, given as a dtype object or as its scalar
  class; a weak tag, that is one of the Python classes; an \<open>ExtendedDType\<close> instance; also
  a category class or \<open>None\<close>) \<open>issubdtype(a, a)\<close> returns \<open>True\<close>.
\<close>

theorem issubdtype_reflexive: "issubdtype a a = Inr True"
proof (cases a)
  case (Like l)
  then show ?thesis
    by (cases l) (simp_all add: issubdtype_def generic_subclass_def sctype_of_def np_dtype_def
      np_issubdtype_def issubclass_refl)
next
  case (Class c)
  then show ?thesis
    by (simp add: issubdtype_def generic_subclass_def sctype_of_def np_dtype_def
      np_issubdtype_def issubclass_refl)
qed

section \<open>Canonicalization under the \<open>x64\<close> flag\<close>

text \<open>
  Claim C6, as stated, fails on the weak tags: with \<open>x64\<close> enabled
  \<open>_canonicalize_dtype\<close> turns the Python class \<open>int\<close> into the dtype \<open>int64\<close>, which is
  another node of the promotion lattice: \<open>promote_types(int, uint8)\<close> is \<open>uint8\<close>, but
  \<open>promote_types(int64, uint8)\<close> is \<open>int64\<close>.
\<close>

theorem canonicalize_dtype_changes_weak_tag:
  "priv_canonicalize_dtype True False (PyClass PyInt) = Inr (Np Int64)
   \<and> promotion_node (PyClass PyInt) = Inr (PyType PyInt)
   \<and> promotion_node (like_of (Np Int64)) = Inr (DT Int64)
   \<and> promote_types \<lparr>numpy_dtype_promotion = ''standard'', enable_x64 = True,
        default_dtype_bits = ''64''\<rparr> (PyClass PyInt) (DTypeObj UInt8) = Inr UInt8
   \<and> promote_types \<lparr>numpy_dtype_promotion = ''standard'', enable_x64 = True,
        default_dtype_bits = ''64''\<rparr> (like_of (Np Int64)) (DTypeObj UInt8) = Inr Int64"
proof (intro conjI)
  show "priv_canonicalize_dtype True False (PyClass PyInt) = Inr (Np Int64)"
    by (simp add: priv_canonicalize_dtype_def issubdtype_extended_like np_dtype_def
        python_scalar_dtypes_def)
  show "promotion_node (PyClass PyInt) = Inr (PyType PyInt)"
    by (simp add: promotion_node_def weak_types_def)
  show "promotion_node (like_of (Np Int64)) = Inr (DT Int64)"
    by (simp add: promotion_node_def like_of_def np_dtype_def)
  have "least_upper_bound_on [(''standard'', standard_upper_bounds)]
          \<lparr>numpy_dtype_promotion = ''standard'', enable_x64 = True, default_dtype_bits = ''64''\<rparr>
          ''standard'' [PyType PyInt, DT UInt8] = Inr (DT UInt8)"
    by (rule least_upper_bound_on_upper_right
          [OF _ standard_upper_bounds_PyInt standard_upper_bounds_UInt8]) simp_all
  then show "promote_types \<lparr>numpy_dtype_promotion = ''standard'', enable_x64 = True,
        default_dtype_bits = ''64''\<rparr> (PyClass PyInt) (DTypeObj UInt8) = Inr UInt8"
    by (simp add: promote_types_def promotion_node_def weak_types_def np_dtype_def
        node_like_def least_upper_bound_standard)
  have "least_upper_bound_on [(''standard'', standard_upper_bounds)]
          \<lparr>numpy_dtype_promotion = ''standard'', enable_x64 = True, default_dtype_bits = ''64''\<rparr>
          ''standard'' [DT Int64, DT UInt8] = Inr (DT Int64)"
    by (rule least_upper_bound_on_upper_left
          [OF _ standard_upper_bounds_Int64 standard_upper_bounds_UInt8]) simp_all
  then show "promote_types \<lparr>numpy_dtype_promotion = ''standard'', enable_x64 = True,
        default_dtype_bits = ''64''\<rparr> (like_of (Np Int64)) (DTypeObj UInt8) = Inr Int64"
    by (simp add: promote_types_def promotion_node_def like_of_def np_dtype_def
        node_like_def least_upper_bound_standard)
qed

text \<open>
  Claim C6, amended. \<open>_canonicalize_dtype\<close> raises a \<open>ValueError\<close> for an extended dtype
  when \<open>allow_extended_dtype\<close> is false (and returns the extended dtype itself when it is
  true). Otherwise it first converts its argument with \<open>np.dtype\<close> to a dtype \<open>d\<close>: a
  dtype is its own \<open>d\<close>, and the weak tags \<open>int\<close>, \<open>float\<close>, \<open>complex\<close> become \<open>int64\<close>,
  \<open>float64\<close>, \<open>complex128\<close>. With \<open>x64_enabled\<close> false the result is \<open>int32\<close>, \<open>uint32\<close>,
  \<open>float32\<close>, \<open>complex64\<close> for \<open>int64\<close>, \<open>uint64\<close>, \<open>float64\<close>, \<open>complex128\<close> and \<open>d\<close>
  itself for every other dtype; with \<open>x64_enabled\<close> true it is \<open>d\<close>. So a dtype is
  returned unchanged when \<open>x64_enabled\<close> is true or it is none of the four 64-bit
  dtypes, and changed otherwise; a weak tag is never returned unchanged. In particular
  \<open>int64\<close> gives \<open>int32\<close> and \<open>int64\<close>.
\<close>

theorem canonicalize_dtype_contract:
  "(issubdtype (Like x) (Class Extended) = Inr True \<longrightarrow>
      priv_canonicalize_dtype wide False x = Inl (ValueError ExtendedNotAllowed)
      \<and> (\<exists>e. x = ExtDType e \<and> priv_canonicalize_dtype wide True x = Inr (Ext e)))
   \<and> (np_dtype y = Inr d \<longrightarrow>
      priv_canonicalize_dtype False allow y =
        Inr (Np (if d = Int64 then Int32 else if d = UInt64 then UInt32
                 else if d = Float64 then Float32 else if d = Complex128 then Complex64
                 else d))
      \<and> priv_canonicalize_dtype True allow y = Inr (Np d))
   \<and> np_dtype (DTypeObj d) = Inr d
   \<and> np_dtype (PyClass t) =
       Inr (case t of PyBool \<Rightarrow> Bool | PyInt \<Rightarrow> Int64 | PyFloat \<Rightarrow> Float64
            | PyComplex \<Rightarrow> Complex128)
   \<and> (\<exists>r. priv_canonicalize_dtype wide allow (DTypeObj d) = Inr r
        \<and> (like_of r = DTypeObj d \<longleftrightarrow> wide \<or> d \<notin> {Int64, UInt64, Float64, Complex128}))
   \<and> (\<exists>r. priv_canonicalize_dtype wide allow (PyClass t) = Inr r \<and> like_of r \<noteq> PyClass t)
   \<and> priv_canonicalize_dtype False False (DTypeObj Int64) = Inr (Np Int32)
   \<and> priv_canonicalize_dtype True False (DTypeObj Int64) = Inr (Np Int64)"
proof (intro conjI impI)
  assume ext: "issubdtype (Like x) (Class Extended) = Inr True"
  then show "priv_canonicalize_dtype wide False x = Inl (ValueError ExtendedNotAllowed)"
    by (simp add: priv_canonicalize_dtype_def)
  from ext obtain e where "x = ExtDType e"
    by (cases x) (simp_all add: issubdtype_extended_like)
  with ext show "\<exists>e. x = ExtDType e \<and> priv_canonicalize_dtype wide True x = Inr (Ext e)"
    by (simp add: priv_canonicalize_dtype_def)
next
  assume y: "np_dtype y = Inr d"
  then have n: "issubdtype (Like y) (Class Extended) = Inr False"
    by (cases y) (simp_all add: issubdtype_extended_like np_dtype_def)
  from y n show "priv_canonicalize_dtype False allow y =
        Inr (Np (if d = Int64 then Int32 else if d = UInt64 then UInt32
                 else if d = Float64 then Float32 else if d = Complex128 then Complex64
                 else d))"
    by (simp add: priv_canonicalize_dtype_def dtype_to_32bit_dtype_def)
  from y n show "priv_canonicalize_dtype True allow y = Inr (Np d)"
    by (simp add: priv_canonicalize_dtype_def)
next
  show "np_dtype (DTypeObj d) = Inr d"
    by (simp add: np_dtype_def)
next
  show "np_dtype (PyClass t) =
       Inr (case t of PyBool \<Rightarrow> Bool | PyInt \<Rightarrow> Int64 | PyFloat \<Rightarrow> Float64
            | PyComplex \<Rightarrow> Complex128)"
    by (simp add: np_dtype_def python_scalar_dtypes_def)
next
  show "\<exists>r. priv_canonicalize_dtype wide allow (DTypeObj d) = Inr r
        \<and> (like_of r = DTypeObj d \<longleftrightarrow> wide \<or> d \<notin> {Int64, UInt64, Float64, Complex128})"
    by (cases d) (simp_all add: priv_canonicalize_dtype_def issubdtype_extended_like
        np_dtype_def dtype_to_32bit_dtype_def like_of_def)
next
  show "\<exists>r. priv_canonicalize_dtype wide allow (PyClass t) = Inr r \<and> like_of r \<noteq> PyClass t"
    by (simp add: priv_canonicalize_dtype_def issubdtype_extended_like
        np_dtype_def like_of_def)
next
  show "priv_canonicalize_dtype False False (DTypeObj Int64) = Inr (Np Int32)"
    by (simp add: priv_canonicalize_dtype_def issubdtype_extended_like np_dtype_def
        dtype_to_32bit_dtype_def)
next
  show "priv_canonicalize_dtype True False (DTypeObj Int64) = Inr (Np Int64)"
    by (simp add: priv_canonicalize_dtype_def issubdtype_extended_like np_dtype_def)
qed

theorem canonicalize_dtype_contract_witness:
  "issubdtype (Like (ExtDType (ExtendedDType 0 Prng_key))) (Class Extended) = Inr True
   \<and> priv_canonicalize_dtype False False (ExtDType (ExtendedDType 0 Prng_key))
       = Inl (ValueError ExtendedNotAllowed)
   \<and> priv_canonicalize_dtype False True (ExtDType (ExtendedDType 0 Prng_key))
       = Inr (Ext (ExtendedDType 0 Prng_key))
   \<and> np_dtype (DTypeObj UInt64) = Inr UInt64
   \<and> priv_canonicalize_dtype False False (DTypeObj UInt64) = Inr (Np UInt32)
   \<and> priv_canonicalize_dtype True False (DTypeObj UInt64) = Inr (Np UInt64)"
proof -
  have h: "issubdtype (Like (ExtDType (ExtendedDType 0 Prng_key))) (Class Extended) = Inr True"
    by (simp add: issubdtype_extended_like issubclass_def)
  have n: "np_dtype (DTypeObj UInt64) = Inr UInt64"
    by (simp add: np_dtype_def)
  from canonicalize_dtype_contract
    [of "ExtDType (ExtendedDType 0 Prng_key)" False "DTypeObj UInt64" UInt64 False] h n
  show ?thesis by simp
qed

section \<open>Boolean results are never weak\<close>

lemma kind_bool: "kind d = CHR ''b'' \<longleftrightarrow> d = Bool"
  by (cases d) (simp_all add: kind_def)

lemma lattice_result_type_weak:
  "lattice_result_type cfg args = Inr (dt, True) \<Longrightarrow> dt \<noteq> Np Bool"
  by (auto simp: lattice_result_type_def split: sum.splits prod.splits)

lemma default_types_not_bool:
  assumes "k \<noteq> CHR ''b''" and "default_types cfg k = Some t"
    and "canonicalize_dtype cfg (ScalarType t) False = Inr dt"
  shows "dt \<noteq> Np Bool"
  using assms
  by (auto simp: default_types_def int_default_def uint_default_def float_default_def
      complex_default_def canonicalize_dtype_def priv_canonicalize_dtype_def
      issubdtype_extended_like np_dtype_def dtype_to_32bit_dtype_def split: if_splits)

lemma result_type_pair_weak:
  assumes "result_type_pair cfg args = Inr (dt, True)"
  shows "dt \<noteq> Np Bool"
proof -
  from assms obtain dt0 where l: "lattice_result_type cfg
      (map (\<lambda>arg. if arg = ONone then OScalarType (float_default cfg) else arg) args) = Inr (dt0, True)"
    by (auto simp: result_type_pair_def split: if_splits sum.splits prod.splits xdtype.splits
        option.splits)
  from lattice_result_type_weak [OF l] obtain d where d: "dt0 = Np d" "d \<noteq> Bool"
    by (cases dt0) (use assms l in \<open>auto simp: result_type_pair_def split: if_splits\<close>)
  let ?k = "if d \<in> set custom_float_dtypes then CHR ''f'' else kind d"
  have k: "?k \<noteq> CHR ''b''" using d(2) by (simp add: kind_bool)
  from assms l d obtain t where t: "default_types cfg ?k = Some t"
    and c: "canonicalize_dtype cfg (ScalarType t) False = Inr dt"
    by (auto simp: result_type_pair_def split: if_splits sum.splits option.splits)
  from default_types_not_bool [OF k t c] show ?thesis .
qed

text \<open>
  Claim C10. When \<open>result_type\<close> is asked for the weak flag and returns the dtype
  \<open>bool\<close>, the flag it returns is false, for every list of operands. This holds also
  for a single operand that is a Python \<open>bool\<close> literal, and for a single weakly typed
  value of dtype \<open>bool\<close>.
\<close>

theorem bool_result_never_weak:
  "(result_type cfg args True = Inr (DtypeAndWeak (Np Bool) w) \<longrightarrow> w = False)
   \<and> result_type cfg [OPyLit PyBool] True = Inr (DtypeAndWeak (Np Bool) False)
   \<and> result_type cfg [OArray Bool True] True = Inr (DtypeAndWeak (Np Bool) False)"
proof (intro conjI)
  show "result_type cfg args True = Inr (DtypeAndWeak (Np Bool) w) \<longrightarrow> w = False"
  proof (intro impI, rule ccontr)
    assume r: "result_type cfg args True = Inr (DtypeAndWeak (Np Bool) w)" and w: "w \<noteq> False"
    then have "result_type_pair cfg args = Inr (Np Bool, True)"
      by (auto simp: result_type_def split: sum.splits prod.splits)
    from result_type_pair_weak [OF this] show False by simp
  qed
  show "result_type cfg [OPyLit PyBool] True = Inr (DtypeAndWeak (Np Bool) False)"
    by (simp add: result_type_def result_type_pair_def lattice_result_type_def
        lattice_result_type_chain_def dtype_and_weaktype_def dtype_def getattr_dtype_def
        issubdtype_extended_like np_result_type_def like_of_def jax_dtype_set_def bool_types_def
        is_weakly_typed_def canonicalize_dtype_def priv_canonicalize_dtype_def np_dtype_def
        dtype_to_32bit_dtype_def python_scalar_dtypes_def weak_types_def Let_def)
  show "result_type cfg [OArray Bool True] True = Inr (DtypeAndWeak (Np Bool) False)"
    by (simp add: result_type_def result_type_pair_def lattice_result_type_def
        lattice_result_type_chain_def dtype_and_weaktype_def dtype_def getattr_dtype_def
        issubdtype_extended_like np_result_type_def like_of_def jax_dtype_set_def bool_types_def
        is_weakly_typed_def canonicalize_dtype_def priv_canonicalize_dtype_def np_dtype_def
        dtype_to_32bit_dtype_def Let_def)
qed

theorem bool_result_never_weak_witness:
  "result_type \<lparr>numpy_dtype_promotion = ''standard'', enable_x64 = False,
                default_dtype_bits = ''64''\<rparr> [OArray Bool True, OPyLit PyBool] True
     = Inr (DtypeAndWeak (Np Bool) False) \<and> False = False"
proof -
  have h: "result_type \<lparr>numpy_dtype_promotion = ''standard'', enable_x64 = False,
                default_dtype_bits = ''64''\<rparr> [OArray Bool True, OPyLit PyBool] True
     = Inr (DtypeAndWeak (Np Bool) False)"
    by (simp add: result_type_def result_type_pair_def lattice_result_type_def
        lattice_result_type_chain_def dtype_and_weaktype_def dtype_def getattr_dtype_def
        issubdtype_extended_like np_result_type_def like_of_def jax_dtype_set_def bool_types_def
        is_weakly_typed_def canonicalize_dtype_def priv_canonicalize_dtype_def np_dtype_def
        dtype_to_32bit_dtype_def python_scalar_dtypes_def weak_types_def Let_def)
  from bool_result_never_weak [of "\<lparr>numpy_dtype_promotion = ''standard'', enable_x64 = False,
                default_dtype_bits = ''64''\<rparr>" "[OArray Bool True, OPyLit PyBool]" False] h
  show ?thesis by simp
qed

section \<open>Promoting a type with itself\<close>

text \<open>
  Claim C3, as stated, fails: with \<open>x64\<close> disabled \<open>promote_types(int64, int64)\<close> is
  \<open>int64\<close>, while \<open>canonicalize_dtype(int64)\<close> is \<open>int32\<close>.
\<close>

theorem promote_types_self_not_canonical:
  "promote_types \<lparr>numpy_dtype_promotion = ''standard'', enable_x64 = False,
                  default_dtype_bits = ''64''\<rparr> (DTypeObj Int64) (DTypeObj Int64) = Inr Int64
   \<and> canonicalize_dtype \<lparr>numpy_dtype_promotion = ''standard'', enable_x64 = False,
                  default_dtype_bits = ''64''\<rparr> (DTypeObj Int64) False = Inr (Np Int32)"
proof
  have "least_upper_bound \<lparr>numpy_dtype_promotion = ''standard'', enable_x64 = False,
           default_dtype_bits = ''64''\<rparr> ''standard'' [DT Int64, DT Int64] = Inr (DT Int64)"
    using least_upper_bound_same [of "\<lparr>numpy_dtype_promotion = ''standard'', enable_x64 = False,
           default_dtype_bits = ''64''\<rparr>" "DT Int64"] by simp
  then show "promote_types \<lparr>numpy_dtype_promotion = ''standard'', enable_x64 = False,
                  default_dtype_bits = ''64''\<rparr> (DTypeObj Int64) (DTypeObj Int64) = Inr Int64"
    by (simp add: promote_types_def promotion_node_def np_dtype_def node_like_def)
  show "canonicalize_dtype \<lparr>numpy_dtype_promotion = ''standard'', enable_x64 = False,
                  default_dtype_bits = ''64''\<rparr> (DTypeObj Int64) False = Inr (Np Int32)"
    by (simp add: canonicalize_dtype_valid np_dtype_def dtype_to_32bit_dtype_def)
qed

text \<open>
  Claim C3, amended. For every valid type tag \<open>a\<close> (one that \<open>np.dtype\<close> accepts, \<open>d\<close>
  being \<open>np.dtype(a)\<close>) and both promotion policies, \<open>promote_types(a, a)\<close> is \<open>d\<close>, with
  no width normalization. It equals \<open>canonicalize_dtype(a)\<close> exactly when \<open>x64\<close> is
  enabled or \<open>d\<close> is not one of \<open>int64\<close>, \<open>uint64\<close>, \<open>float64\<close>, \<open>complex128\<close>.
\<close>

theorem promote_types_self:
  assumes "numpy_dtype_promotion cfg = ''standard'' \<or> numpy_dtype_promotion cfg = ''strict''"
    and "np_dtype a = Inr d"
  shows "promote_types cfg a a = Inr d
     \<and> (canonicalize_dtype cfg a False = Inr (Np d)
          \<longleftrightarrow> enable_x64 cfg \<or> d \<notin> {Int64, UInt64, Float64, Complex128})"
proof
  from promotion_node_valid [OF assms(2)] obtain n where
    n: "promotion_node a = Inr n" "np_dtype (node_like n) = Inr d"
      "case n of DT d \<Rightarrow> True | PyType t \<Rightarrow> t \<noteq> PyBool | EXT e \<Rightarrow> False"
    by blast
  from least_upper_bound_same [OF assms(1) n(3)] n(1,2)
  show "promote_types cfg a a = Inr d"
    by (simp add: promote_types_def)
  show "canonicalize_dtype cfg a False = Inr (Np d)
          \<longleftrightarrow> enable_x64 cfg \<or> d \<notin> {Int64, UInt64, Float64, Complex128}"
    by (cases d) (simp_all add: canonicalize_dtype_valid [OF assms(2)] dtype_to_32bit_dtype_def)
qed

theorem promote_types_self_witness:
  "promote_types \<lparr>numpy_dtype_promotion = ''strict'', enable_x64 = False,
                  default_dtype_bits = ''64''\<rparr> (PyClass PyFloat) (PyClass PyFloat) = Inr Float64
   \<and> canonicalize_dtype \<lparr>numpy_dtype_promotion = ''strict'', enable_x64 = False,
                  default_dtype_bits = ''64''\<rparr> (PyClass PyFloat) False \<noteq> Inr (Np Float64)"
  using promote_types_self [of "\<lparr>numpy_dtype_promotion = ''strict'', enable_x64 = False,
                  default_dtype_bits = ''64''\<rparr>" "PyClass PyFloat" Float64]
  by (simp add: np_dtype_def python_scalar_dtypes_def)

section \<open>Promotion under the strict policy\<close>

lemma strict_upper_bounds_PyInt:
  "map_of strict_upper_bounds (PyType PyInt) =
     Some [PyType PyInt, DT Int64, DT Int32, DT Int16, DT Int8, DT Int4, DT UInt64, DT
     UInt32, DT UInt16, DT UInt8, DT UInt4, PyType PyFloat, DT Float64, DT Float32, DT Float16,
     DT BFloat16, DT Float8_e5m2fnuz, DT Float8_e5m2, DT Float8_e4m3fnuz, DT Float8_e4m3fn, DT
     Float8_e4m3b11fnuz, PyType PyComplex, DT Complex128, DT Complex64]"
  by (simp add: strict_upper_bounds_def)

lemma strict_upper_bounds_PyFloat:
  "map_of strict_upper_bounds (PyType PyFloat) =
     Some [PyType PyFloat, DT Float64, DT Float32, DT Float16, DT BFloat16, DT Float8_e5m2fnuz, DT
     Float8_e5m2, DT Float8_e4m3fnuz, DT Float8_e4m3fn, DT Float8_e4m3b11fnuz, PyType PyComplex,
     DT Complex128, DT Complex64]"
  by (simp add: strict_upper_bounds_def)

lemma strict_upper_bounds_PyComplex:
  "map_of strict_upper_bounds (PyType PyComplex) =
     Some [PyType PyComplex, DT Complex128, DT Complex64]"
  by (simp add: strict_upper_bounds_def)

lemma promote_types_strict_concrete:
  assumes s: "numpy_dtype_promotion cfg = ''strict''" and ne: "a \<noteq> b"
  shows "promote_types cfg (DTypeObj a) (DTypeObj b) = Inl (TypePromotionError StrictMsg)"
proof -
  have "least_upper_bound_on [(''strict'', strict_upper_bounds)] cfg ''strict'' [DT a, DT b]
          = Inl (TypePromotionError (no_promotion_path_msg cfg [DT a, DT b]))"
    using ne
    by (subst least_upper_bound_on_terminal_right
          [OF _ strict_upper_bounds_DT strict_upper_bounds_DT]) simp_all
  then show ?thesis
    by (simp add: promote_types_def promotion_node_def np_dtype_def s least_upper_bound_strict
        no_promotion_path_msg_def)
qed

lemma promote_types_strict_weak_left:
  assumes s: "numpy_dtype_promotion cfg = ''strict''"
    and ua: "map_of strict_upper_bounds (PyType t) = Some ua"
  shows "promote_types cfg (PyClass t) (DTypeObj d) =
           (if DT d \<in> set ua then Inr d else Inl (TypePromotionError StrictMsg))"
proof -
  from ua have t: "t \<in> set weak_types"
    by (cases t) (simp_all add: weak_types_def strict_upper_bounds_def)
  have "least_upper_bound_on [(''strict'', strict_upper_bounds)] cfg ''strict''
          [PyType t, DT d]
          = (if DT d \<in> set ua then Inr (DT d)
             else Inl (TypePromotionError (no_promotion_path_msg cfg [PyType t, DT d])))"
    by (rule least_upper_bound_on_terminal_right [OF _ ua strict_upper_bounds_DT]) simp_all
  then show ?thesis
    using t
    by (simp add: promote_types_def promotion_node_def np_dtype_def s least_upper_bound_strict
        no_promotion_path_msg_def node_like_def)
qed

lemma promote_types_strict_weak_right:
  assumes s: "numpy_dtype_promotion cfg = ''strict''"
    and ua: "map_of strict_upper_bounds (PyType t) = Some ua"
  shows "promote_types cfg (DTypeObj d) (PyClass t) =
           (if DT d \<in> set ua then Inr d else Inl (TypePromotionError StrictMsg))"
proof -
  from ua have t: "t \<in> set weak_types"
    by (cases t) (simp_all add: weak_types_def strict_upper_bounds_def)
  have "least_upper_bound_on [(''strict'', strict_upper_bounds)] cfg ''strict''
          [DT d, PyType t]
          = (if DT d \<in> set ua then Inr (DT d)
             else Inl (TypePromotionError (no_promotion_path_msg cfg [DT d, PyType t])))"
    by (rule least_upper_bound_on_terminal_left [OF _ strict_upper_bounds_DT ua]) simp_all
  then show ?thesis
    using t
    by (simp add: promote_types_def promotion_node_def np_dtype_def s least_upper_bound_strict
        no_promotion_path_msg_def node_like_def)
qed

lemma strict_lattice_terminal:
  "\<exists>L. type_promotion_lattice ''strict'' = Inr L \<and> map_of L (DT a) = Some []"
  unfolding type_promotion_lattice_strict by (cases a) simp_all

text \<open>
  Claim C4. Under the strict policy every dtype is a terminal node of the lattice, and
  \<open>promote_types\<close> of two distinct dtypes raises a \<open>TypePromotionError\<close>. A weak tag
  promoted with a dtype of a compatible category gives that dtype, in either order of
  the arguments: \<open>int\<close> with any integer, floating or complex dtype, \<open>float\<close> with any
  floating or complex dtype, \<open>complex\<close> with any complex dtype; with any other dtype it
  raises a \<open>TypePromotionError\<close>. In particular \<open>promote_types(int32, int64)\<close> raises
  and \<open>promote_types(int, int64)\<close> is \<open>int64\<close>.
\<close>

theorem promote_types_strict:
  assumes "numpy_dtype_promotion cfg = ''strict''"
  shows "(a \<noteq> b \<longrightarrow>
            promote_types cfg (DTypeObj a) (DTypeObj b) = Inl (TypePromotionError StrictMsg))
     \<and> (\<exists>L. type_promotion_lattice ''strict'' = Inr L \<and> map_of L (DT a) = Some [])
     \<and> promote_types cfg (PyClass PyInt) (DTypeObj d) =
          (if d \<in> set (int_types @ float_types @ complex_types) then Inr d
           else Inl (TypePromotionError StrictMsg))
     \<and> promote_types cfg (PyClass PyFloat) (DTypeObj d) =
          (if d \<in> set (float_types @ complex_types) then Inr d
           else Inl (TypePromotionError StrictMsg))
     \<and> promote_types cfg (PyClass PyComplex) (DTypeObj d) =
          (if d \<in> set complex_types then Inr d
           else Inl (TypePromotionError StrictMsg))
     \<and> promote_types cfg (DTypeObj d) (PyClass PyInt) = promote_types cfg (PyClass PyInt) (DTypeObj d)
     \<and> promote_types cfg (DTypeObj d) (PyClass PyFloat) = promote_types cfg (PyClass PyFloat) (DTypeObj d)
     \<and> promote_types cfg (DTypeObj d) (PyClass PyComplex) = promote_types cfg (PyClass PyComplex) (DTypeObj d)
     \<and> promote_types cfg (DTypeObj Int32) (DTypeObj Int64) = Inl (TypePromotionError StrictMsg)
     \<and> promote_types cfg (PyClass PyInt) (DTypeObj Int64) = Inr Int64"
proof (intro conjI impI)
  assume "a \<noteq> b"
  then show "promote_types cfg (DTypeObj a) (DTypeObj b) = Inl (TypePromotionError StrictMsg)"
    by (rule promote_types_strict_concrete [OF assms])
next
  show "\<exists>L. type_promotion_lattice ''strict'' = Inr L \<and> map_of L (DT a) = Some []"
    by (rule strict_lattice_terminal)
next
  show "promote_types cfg (PyClass PyInt) (DTypeObj d) =
          (if d \<in> set (int_types @ float_types @ complex_types) then Inr d
           else Inl (TypePromotionError StrictMsg))"
    unfolding promote_types_strict_weak_left [OF assms strict_upper_bounds_PyInt]
    by (cases d) (simp_all add: int_types_def float_types_def complex_types_def
        custom_float_dtypes_def)
next
  show "promote_types cfg (PyClass PyFloat) (DTypeObj d) =
          (if d \<in> set (float_types @ complex_types) then Inr d
           else Inl (TypePromotionError StrictMsg))"
    unfolding promote_types_strict_weak_left [OF assms strict_upper_bounds_PyFloat]
    by (cases d) (simp_all add: float_types_def complex_types_def custom_float_dtypes_def)
next
  show "promote_types cfg (PyClass PyComplex) (DTypeObj d) =
          (if d \<in> set complex_types then Inr d
           else Inl (TypePromotionError StrictMsg))"
    unfolding promote_types_strict_weak_left [OF assms strict_upper_bounds_PyComplex]
    by (cases d) (simp_all add: complex_types_def)
next
  show "promote_types cfg (DTypeObj d) (PyClass PyInt) = promote_types cfg (PyClass PyInt) (DTypeObj d)"
    by (simp only: promote_types_strict_weak_left [OF assms strict_upper_bounds_PyInt]
        promote_types_strict_weak_right [OF assms strict_upper_bounds_PyInt])
next
  show "promote_types cfg (DTypeObj d) (PyClass PyFloat) = promote_types cfg (PyClass PyFloat) (DTypeObj d)"
    by (simp only: promote_types_strict_weak_left [OF assms strict_upper_bounds_PyFloat]
        promote_types_strict_weak_right [OF assms strict_upper_bounds_PyFloat])
next
  show "promote_types cfg (DTypeObj d) (PyClass PyComplex) = promote_types cfg (PyClass PyComplex) (DTypeObj d)"
    by (simp only: promote_types_strict_weak_left [OF assms strict_upper_bounds_PyComplex]
        promote_types_strict_weak_right [OF assms strict_upper_bounds_PyComplex])
next
  show "promote_types cfg (DTypeObj Int32) (DTypeObj Int64) = Inl (TypePromotionError StrictMsg)"
    by (rule promote_types_strict_concrete [OF assms]) simp
next
  show "promote_types cfg (PyClass PyInt) (DTypeObj Int64) = Inr Int64"
    unfolding promote_types_strict_weak_left [OF assms strict_upper_bounds_PyInt] by simp
qed

theorem promote_types_strict_witness:
  "numpy_dtype_promotion \<lparr>numpy_dtype_promotion = ''strict'', enable_x64 = False,
       default_dtype_bits = ''64''\<rparr> = ''strict''
   \<and> Float16 \<noteq> Float32
   \<and> promote_types \<lparr>numpy_dtype_promotion = ''strict'', enable_x64 = False,
       default_dtype_bits = ''64''\<rparr> (DTypeObj Float16) (DTypeObj Float32)
       = Inl (TypePromotionError StrictMsg)
   \<and> promote_types \<lparr>numpy_dtype_promotion = ''strict'', enable_x64 = False,
       default_dtype_bits = ''64''\<rparr> (PyClass PyFloat) (DTypeObj Complex64) = Inr Complex64
   \<and> promote_types \<lparr>numpy_dtype_promotion = ''strict'', enable_x64 = False,
       default_dtype_bits = ''64''\<rparr> (PyClass PyFloat) (DTypeObj Int32)
       = Inl (TypePromotionError StrictMsg)"
proof -
  have "promote_types \<lparr>numpy_dtype_promotion = ''strict'', enable_x64 = False,
       default_dtype_bits = ''64''\<rparr> (PyClass PyFloat) (DTypeObj Int32)
       = Inl (TypePromotionError StrictMsg)"
    using promote_types_strict [of "\<lparr>numpy_dtype_promotion = ''strict'', enable_x64 = False,
       default_dtype_bits = ''64''\<rparr>" Float16 Float32 Int32]
    by (simp add: float_types_def complex_types_def custom_float_dtypes_def)
  then show ?thesis
    using promote_types_strict [of "\<lparr>numpy_dtype_promotion = ''strict'', enable_x64 = False,
       default_dtype_bits = ''64''\<rparr>" Float16 Float32 Complex64]
    by (simp add: float_types_def complex_types_def custom_float_dtypes_def)
qed

section \<open>The narrow types under the standard policy\<close>

lemma standard_upper_bounds_narrow:
  assumes "t \<in> set (float8_dtypes @ int4_dtypes)"
  shows "map_of standard_upper_bounds (DT t) = Some [DT t]"
proof (cases t)
qed (use assms in \<open>simp_all add: float8_dtypes_def int4_dtypes_def standard_upper_bounds_def\<close>)

lemma standard_upper_bounds_DT_total:
  "\<exists>ub. map_of standard_upper_bounds (DT d) = Some ub"
  using standard_upper_bounds_known [of "DT d"] by auto

lemma standard_float8_below:
  assumes "t \<in> set float8_dtypes" and "map_of standard_upper_bounds (DT d) = Some ub"
    and "d \<noteq> t"
  shows "DT t \<in> set ub \<longleftrightarrow>
           d \<in> set [Bool, UInt8, UInt16, UInt32, UInt64, Int8, Int16, Int32, Int64]"
proof (cases d)
qed (use assms in \<open>auto simp: float8_dtypes_def standard_upper_bounds_def\<close>)

lemma standard_int4_below:
  assumes "t \<in> set int4_dtypes" and "map_of standard_upper_bounds (DT d) = Some ub"
    and "d \<noteq> t"
  shows "DT t \<in> set ub \<longleftrightarrow> d = Bool"
proof (cases d)
qed (use assms in \<open>auto simp: int4_dtypes_def standard_upper_bounds_def\<close>)


lemma standard_lattice_terminal:
  assumes "t \<in> set (float8_dtypes @ int4_dtypes)"
  shows "\<exists>L. type_promotion_lattice ''standard'' = Inr L \<and> map_of L (DT t) = Some []
           \<and> (t \<in> set int4_dtypes \<longrightarrow>
                (\<forall>n succ. map_of L n = Some succ \<and> DT t \<in> set succ \<longrightarrow> n = PyType PyInt)
                \<and> (\<exists>succ. map_of L (PyType PyInt) = Some succ \<and> DT t \<in> set succ))"
proof -
  obtain L where L: "type_promotion_lattice ''standard'' = Inr L"
    and chk: "list_all (\<lambda>(n, succ). DT Int4 \<in> set succ \<or> DT UInt4 \<in> set succ
                \<longrightarrow> n = PyType PyInt) L"
    and leaf: "list_all (\<lambda>t. map_of L (DT t) = Some []) (float8_dtypes @ int4_dtypes)"
    and succ: "\<exists>succ. map_of L (PyType PyInt) = Some succ
                 \<and> DT Int4 \<in> set succ \<and> DT UInt4 \<in> set succ"
    by (simp add: type_promotion_lattice_standard float8_dtypes_def int4_dtypes_def)
  from leaf assms have a: "map_of L (DT t) = Some []"
    by (simp only: list_all_iff)
  have b: "n = PyType PyInt"
    if i: "t \<in> set int4_dtypes" and m: "map_of L n = Some succ" and s: "DT t \<in> set succ"
    for n succ
  proof -
    from m have "(n, succ) \<in> set L" by (rule map_of_SomeD)
    with chk have "DT Int4 \<in> set succ \<or> DT UInt4 \<in> set succ \<longrightarrow> n = PyType PyInt"
      by (auto simp: list_all_iff)
    moreover from i s have "DT Int4 \<in> set succ \<or> DT UInt4 \<in> set succ"
      by (auto simp: int4_dtypes_def)
    ultimately show ?thesis by simp
  qed
  have c: "\<exists>succ. map_of L (PyType PyInt) = Some succ \<and> DT t \<in> set succ"
    if i: "t \<in> set int4_dtypes"
    using succ i by (auto simp: int4_dtypes_def)
  from L a b c show ?thesis by blast
qed

lemma promote_types_standard_narrow_left:
  assumes s: "numpy_dtype_promotion cfg = ''standard''"
    and t: "t \<in> set (float8_dtypes @ int4_dtypes)" and ne: "d \<noteq> t"
    and ub: "map_of standard_upper_bounds (DT d) = Some ub"
  shows "promote_types cfg (DTypeObj t) (DTypeObj d) =
           (if DT t \<in> set ub then Inr t
            else Inl (TypePromotionError
                   (if t \<in> set float8_dtypes \<or> d \<in> set float8_dtypes then Float8Msg
                    else Int4Msg)))"
proof -
  have "least_upper_bound_on [(''standard'', standard_upper_bounds)] cfg ''standard''
          [DT t, DT d]
          = (if DT t \<in> set ub then Inr (DT t)
             else Inl (TypePromotionError (no_promotion_path_msg cfg [DT t, DT d])))"
    using ne
    by (intro least_upper_bound_on_terminal_left [OF _ standard_upper_bounds_narrow [OF t] ub])
      auto
  moreover have "no_promotion_path_msg cfg [DT t, DT d] =
      (if t \<in> set float8_dtypes \<or> d \<in> set float8_dtypes then Float8Msg else Int4Msg)"
    using s t by (auto simp: no_promotion_path_msg_def)
  ultimately show ?thesis
    by (simp add: promote_types_def promotion_node_def np_dtype_def s
        least_upper_bound_standard node_like_def)
qed

lemma promote_types_standard_narrow_right:
  assumes s: "numpy_dtype_promotion cfg = ''standard''"
    and t: "t \<in> set (float8_dtypes @ int4_dtypes)" and ne: "d \<noteq> t"
    and ub: "map_of standard_upper_bounds (DT d) = Some ub"
  shows "promote_types cfg (DTypeObj d) (DTypeObj t) =
           (if DT t \<in> set ub then Inr t
            else Inl (TypePromotionError
                   (if t \<in> set float8_dtypes \<or> d \<in> set float8_dtypes then Float8Msg
                    else Int4Msg)))"
proof -
  have "least_upper_bound_on [(''standard'', standard_upper_bounds)] cfg ''standard''
          [DT d, DT t]
          = (if DT t \<in> set ub then Inr (DT t)
             else Inl (TypePromotionError (no_promotion_path_msg cfg [DT d, DT t])))"
    using ne
    by (intro least_upper_bound_on_terminal_right [OF _ ub standard_upper_bounds_narrow [OF t]])
      auto
  moreover have "no_promotion_path_msg cfg [DT d, DT t] =
      (if t \<in> set float8_dtypes \<or> d \<in> set float8_dtypes then Float8Msg else Int4Msg)"
    using s t by (auto simp: no_promotion_path_msg_def)
  ultimately show ?thesis
    by (simp add: promote_types_def promotion_node_def np_dtype_def s
        least_upper_bound_standard node_like_def)
qed

text \<open>
  Claim C7, as stated, fails: under the standard policy
  \<open>promote_types(float8_e4m3fn, int32)\<close> raises nothing, it returns \<open>float8_e4m3fn\<close>
  (\<open>int32\<close> lies below the weak \<open>float\<close>, whose successors include the 8-bit floats).
\<close>

theorem promote_types_float8_int32:
  "promote_types \<lparr>numpy_dtype_promotion = ''standard'', enable_x64 = False,
       default_dtype_bits = ''64''\<rparr> (DTypeObj Float8_e4m3fn) (DTypeObj Int32)
     = Inr Float8_e4m3fn"
proof -
  obtain ub where ub: "map_of standard_upper_bounds (DT Int32) = Some ub"
    using standard_upper_bounds_DT_total by blast
  have "DT Float8_e4m3fn \<in> set ub"
    using standard_float8_below [OF _ ub, of Float8_e4m3fn] by (simp add: float8_dtypes_def)
  then show ?thesis
    by (subst promote_types_standard_narrow_left [OF _ _ _ ub])
      (simp_all add: float8_dtypes_def)
qed

text \<open>
  Claim C7, amended. Under the standard policy a narrow tag \<open>t\<close> (one of the five 8-bit
  float formats or the two 4-bit integer tags) promoted with another dtype \<open>d\<close>, in
  either order, either returns \<open>t\<close> itself or raises a \<open>TypePromotionError\<close>, it never
  gives a third type: it returns \<open>t\<close> exactly when \<open>d\<close> lies below \<open>t\<close> in the lattice,
  that is for an 8-bit float \<open>t\<close> when \<open>d\<close> is \<open>bool\<close> or an integer dtype of 8 to 64
  bits, and for a 4-bit \<open>t\<close> when \<open>d\<close> is \<open>bool\<close>. So \<open>promote_types(float8_e4m3fn,
  int32)\<close> is \<open>float8_e4m3fn\<close> and \<open>promote_types(float8_e4m3fn, float32)\<close> raises. In the
  standard lattice the narrow tags are terminal nodes, and the 4-bit tags are successors
  of the weak \<open>int\<close> only.
\<close>

theorem promote_types_standard_narrow:
  assumes "numpy_dtype_promotion cfg = ''standard''"
    and "t \<in> set (float8_dtypes @ int4_dtypes)" and "d \<noteq> t"
  shows "promote_types cfg (DTypeObj t) (DTypeObj d) =
           (if (t \<in> set float8_dtypes
                  \<and> d \<in> set [Bool, UInt8, UInt16, UInt32, UInt64, Int8, Int16, Int32, Int64])
               \<or> (t \<in> set int4_dtypes \<and> d = Bool)
            then Inr t
            else Inl (TypePromotionError
                   (if t \<in> set float8_dtypes \<or> d \<in> set float8_dtypes then Float8Msg
                    else Int4Msg)))
     \<and> promote_types cfg (DTypeObj d) (DTypeObj t) = promote_types cfg (DTypeObj t) (DTypeObj d)
     \<and> (\<exists>L. type_promotion_lattice ''standard'' = Inr L \<and> map_of L (DT t) = Some []
           \<and> (t \<in> set int4_dtypes \<longrightarrow>
                (\<forall>n succ. map_of L n = Some succ \<and> DT t \<in> set succ \<longrightarrow> n = PyType PyInt)
                \<and> (\<exists>succ. map_of L (PyType PyInt) = Some succ \<and> DT t \<in> set succ)))"
proof (intro conjI)
  obtain ub where ub: "map_of standard_upper_bounds (DT d) = Some ub"
    using standard_upper_bounds_DT_total by blast
  have below: "DT t \<in> set ub \<longleftrightarrow>
      (t \<in> set float8_dtypes
          \<and> d \<in> set [Bool, UInt8, UInt16, UInt32, UInt64, Int8, Int16, Int32, Int64])
      \<or> (t \<in> set int4_dtypes \<and> d = Bool)"
  proof (cases "t \<in> set float8_dtypes")
    case True
    then have "t \<notin> set int4_dtypes" by (auto simp: float8_dtypes_def int4_dtypes_def)
    with True standard_float8_below [OF True ub assms(3)] show ?thesis by simp
  next
    case False
    with assms(2) have i: "t \<in> set int4_dtypes" by simp
    with False standard_int4_below [OF i ub assms(3)] show ?thesis by simp
  qed
  show l: "promote_types cfg (DTypeObj t) (DTypeObj d) =
           (if (t \<in> set float8_dtypes
                  \<and> d \<in> set [Bool, UInt8, UInt16, UInt32, UInt64, Int8, Int16, Int32, Int64])
               \<or> (t \<in> set int4_dtypes \<and> d = Bool)
            then Inr t
            else Inl (TypePromotionError
                   (if t \<in> set float8_dtypes \<or> d \<in> set float8_dtypes then Float8Msg
                    else Int4Msg)))"
    unfolding promote_types_standard_narrow_left [OF assms ub] below ..
  show "promote_types cfg (DTypeObj d) (DTypeObj t) = promote_types cfg (DTypeObj t) (DTypeObj d)"
    unfolding promote_types_standard_narrow_left [OF assms ub]
      promote_types_standard_narrow_right [OF assms ub] ..
  show "\<exists>L. type_promotion_lattice ''standard'' = Inr L \<and> map_of L (DT t) = Some []
           \<and> (t \<in> set int4_dtypes \<longrightarrow>
                (\<forall>n succ. map_of L n = Some succ \<and> DT t \<in> set succ \<longrightarrow> n = PyType PyInt)
                \<and> (\<exists>succ. map_of L (PyType PyInt) = Some succ \<and> DT t \<in> set succ))"
    by (rule standard_lattice_terminal [OF assms(2)])
qed

theorem promote_types_standard_narrow_witness:
  "promote_types \<lparr>numpy_dtype_promotion = ''standard'', enable_x64 = False,
       default_dtype_bits = ''64''\<rparr> (DTypeObj Float8_e4m3fn) (DTypeObj Float32)
     = Inl (TypePromotionError Float8Msg)
   \<and> promote_types \<lparr>numpy_dtype_promotion = ''standard'', enable_x64 = False,
       default_dtype_bits = ''64''\<rparr> (DTypeObj Int32) (DTypeObj Int4)
     = Inl (TypePromotionError Int4Msg)
   \<and> promote_types \<lparr>numpy_dtype_promotion = ''standard'', enable_x64 = False,
       default_dtype_bits = ''64''\<rparr> (DTypeObj Int4) (DTypeObj Bool) = Inr Int4"
proof -
  have a: "promote_types \<lparr>numpy_dtype_promotion = ''standard'', enable_x64 = False,
       default_dtype_bits = ''64''\<rparr> (DTypeObj Float8_e4m3fn) (DTypeObj Float32)
     = Inl (TypePromotionError Float8Msg)"
    using promote_types_standard_narrow [of "\<lparr>numpy_dtype_promotion = ''standard'',
       enable_x64 = False, default_dtype_bits = ''64''\<rparr>" Float8_e4m3fn Float32]
    by (simp add: float8_dtypes_def int4_dtypes_def)
  have b: "promote_types \<lparr>numpy_dtype_promotion = ''standard'', enable_x64 = False,
       default_dtype_bits = ''64''\<rparr> (DTypeObj Int32) (DTypeObj Int4)
     = Inl (TypePromotionError Int4Msg)"
    using promote_types_standard_narrow [of "\<lparr>numpy_dtype_promotion = ''standard'',
       enable_x64 = False, default_dtype_bits = ''64''\<rparr>" Int4 Int32]
    by (simp add: float8_dtypes_def int4_dtypes_def)
  have c: "promote_types \<lparr>numpy_dtype_promotion = ''standard'', enable_x64 = False,
       default_dtype_bits = ''64''\<rparr> (DTypeObj Int4) (DTypeObj Bool) = Inr Int4"
    using promote_types_standard_narrow [of "\<lparr>numpy_dtype_promotion = ''standard'',
       enable_x64 = False, default_dtype_bits = ''64''\<rparr>" Int4 Bool]
    by (simp add: float8_dtypes_def int4_dtypes_def)
  from a b c show ?thesis by simp
qed

section \<open>An end-to-end scenario of \<open>result_type\<close>\<close>

lemma dtype_and_weaktype_simps:
  "dtype_and_weaktype cfg (ODType d) = Inr (Np d, False)"
  "dtype_and_weaktype cfg (OScalarType d) = Inr (Np d, False)"
  "dtype_and_weaktype cfg (OArray d w) = Inr (Np d, w)"
  "dtype_and_weaktype cfg (OPyLit PyInt) = Inr (Np Int64, True)"
  "dtype_and_weaktype cfg (OPyClass PyBool) = Inr (Np Bool, False)"
  by (cases d; simp add: dtype_and_weaktype_def dtype_def getattr_dtype_def
      issubdtype_extended_like np_result_type_def like_of_def jax_dtype_set_def bool_types_def
      int_types_def float_types_def complex_types_def custom_float_dtypes_def
      is_weakly_typed_def python_scalar_dtypes_def weak_types_def)+


lemma standard_upper_bounds_Bool:
  "map_of standard_upper_bounds (DT Bool) =
     Some [DT Bool, PyType PyInt, DT UInt4, DT Int4, DT Int8, DT UInt8, DT UInt16, DT
     Int16, DT UInt32, DT Int32, DT UInt64, DT Int64, PyType PyFloat, PyType PyComplex, DT
     Float16, DT BFloat16, DT Float8_e5m2fnuz, DT Float8_e5m2, DT Float8_e4m3fnuz, DT
     Float8_e4m3fn, DT Float8_e4m3b11fnuz, DT Float32, DT Complex128, DT Complex64, DT Float64]"
  by (simp add: standard_upper_bounds_def)

lemma standard_upper_bounds_Float32:
  "map_of standard_upper_bounds (DT Float32) =
     Some [DT Float32, DT Complex64, DT Float64, DT Complex128]"
  by (simp add: standard_upper_bounds_def)

lemma least_upper_bound_bool_int:
  "least_upper_bound cfg ''standard'' [DT Bool, PyType PyInt] = Inr (PyType PyInt)"
  unfolding least_upper_bound_standard
  by (rule least_upper_bound_on_upper_right
        [OF _ standard_upper_bounds_Bool standard_upper_bounds_PyInt]) simp_all

lemma least_upper_bound_bool_int_float32:
  "least_upper_bound cfg ''standard'' [DT Bool, PyType PyInt, DT Float32] = Inr (DT Float32)"
  unfolding least_upper_bound_standard
  by (simp add: least_upper_bound_on_def standard_upper_bounds_Bool
      standard_upper_bounds_PyInt standard_upper_bounds_Float32)

lemma canonicalize_int_default:
  "canonicalize_dtype cfg (ScalarType (int_default cfg)) False =
     Inr (Np (if enable_x64 cfg \<and> default_dtype_bits cfg \<noteq> ''32'' then Int64 else Int32))"
  by (simp add: canonicalize_dtype_valid np_dtype_def int_default_def dtype_to_32bit_dtype_def)

text \<open>
  Claim C5. Under the standard policy \<open>result_type\<close> of a \<open>bool\<close> tag (the dtype, its
  scalar class or the Python class \<open>bool\<close>) and a Python \<open>int\<close> literal returns the
  default signed integer type, that is the canonical form of \<open>int_\<close> (\<open>int64\<close> when
  \<open>x64\<close> is enabled and the default width is not 32 bits, \<open>int32\<close> otherwise), with the
  weak flag true; with a strongly typed \<open>float32\<close> value as a third argument it returns
  \<open>float32\<close> with the weak flag false.
\<close>

theorem result_type_bool_weak_int:
  assumes "numpy_dtype_promotion cfg = ''standard''"
    and "b \<in> {ODType Bool, OScalarType Bool, OPyClass PyBool}"
  shows "(\<exists>dt. canonicalize_dtype cfg (ScalarType (int_default cfg)) False = Inr dt
            \<and> result_type cfg [b, OPyLit PyInt] True = Inr (DtypeAndWeak dt True))
     \<and> result_type cfg [b, OPyLit PyInt] True =
         Inr (DtypeAndWeak
                (Np (if enable_x64 cfg \<and> default_dtype_bits cfg \<noteq> ''32'' then Int64
                     else Int32)) True)
     \<and> result_type cfg [b, OPyLit PyInt, OArray Float32 False] True =
         Inr (DtypeAndWeak (Np Float32) False)"
proof -
  from assms(2) have b: "dtype_and_weaktype cfg b = Inr (Np Bool, False)" "b \<noteq> ONone"
    by (auto simp: dtype_and_weaktype_simps)
  have d: "dtype cfg (OPyClass PyInt) False = Inr (Np Int64)"
    "dtype cfg (ODType Float32) False = Inr (Np Float32)"
    by (simp_all add: dtype_def python_scalar_dtypes_def like_of_def issubdtype_extended_like
        jax_dtype_set_def int_types_def float_types_def getattr_dtype_def np_result_type_def)
  have two: "lattice_result_type cfg [b, OPyLit PyInt] = Inr (Np Int64, True)"
    by (simp add: lattice_result_type_def lattice_result_type_chain_def b
        dtype_and_weaktype_simps jax_type_def scalar_item_type_def int_types_def assms(1)
        least_upper_bound_bool_int node_operand_def d weak_types_def custom_float_dtypes_def)
  have three: "lattice_result_type cfg [b, OPyLit PyInt, OArray Float32 False]
                 = Inr (Np Float32, False)"
    by (simp add: lattice_result_type_def lattice_result_type_chain_def b
        dtype_and_weaktype_simps jax_type_def scalar_item_type_def int_types_def assms(1)
        least_upper_bound_bool_int_float32 node_operand_def d weak_types_def
        custom_float_dtypes_def)
  have r2: "result_type cfg [b, OPyLit PyInt] True =
         Inr (DtypeAndWeak
                (Np (if enable_x64 cfg \<and> default_dtype_bits cfg \<noteq> ''32'' then Int64
                     else Int32)) True)"
    using b(2)
    by (simp add: result_type_def result_type_pair_def two custom_float_dtypes_def kind_def
        default_types_def canonicalize_int_default)
  have r3: "result_type cfg [b, OPyLit PyInt, OArray Float32 False] True =
         Inr (DtypeAndWeak (Np Float32) False)"
    using b(2)
    by (simp add: result_type_def result_type_pair_def three like_of_def
        canonicalize_dtype_valid np_dtype_def dtype_to_32bit_dtype_def)
  from r2 r3 show ?thesis
    by (simp add: canonicalize_int_default)
qed

theorem result_type_bool_weak_int_witness:
  "result_type \<lparr>numpy_dtype_promotion = ''standard'', enable_x64 = False,
       default_dtype_bits = ''64''\<rparr> [ODType Bool, OPyLit PyInt] True
     = Inr (DtypeAndWeak (Np Int32) True)
   \<and> result_type \<lparr>numpy_dtype_promotion = ''standard'', enable_x64 = True,
       default_dtype_bits = ''64''\<rparr> [OPyClass PyBool, OPyLit PyInt] True
     = Inr (DtypeAndWeak (Np Int64) True)
   \<and> result_type \<lparr>numpy_dtype_promotion = ''standard'', enable_x64 = False,
       default_dtype_bits = ''64''\<rparr> [ODType Bool, OPyLit PyInt, OArray Float32 False] True
     = Inr (DtypeAndWeak (Np Float32) False)"
  using result_type_bool_weak_int [of "\<lparr>numpy_dtype_promotion = ''standard'',
       enable_x64 = False, default_dtype_bits = ''64''\<rparr>" "ODType Bool"]
    result_type_bool_weak_int [of "\<lparr>numpy_dtype_promotion = ''standard'',
       enable_x64 = True, default_dtype_bits = ''64''\<rparr>" "OPyClass PyBool"]
  by simp

section \<open>\<open>safe_to_cast\<close>\<close>

lemma standard_upper_bounds_Int8:
  "map_of standard_upper_bounds (DT Int8) =
     Some [DT Int8, DT Int16, DT Int32, DT Int64, PyType PyFloat, PyType PyComplex, DT Float16,
     DT BFloat16, DT Float8_e5m2fnuz, DT Float8_e5m2, DT Float8_e4m3fnuz, DT Float8_e4m3fn, DT
     Float8_e4m3b11fnuz, DT Float32, DT Complex128, DT Complex64, DT Float64]"
  by (simp add: standard_upper_bounds_def)

lemma standard_upper_bounds_Int32:
  "map_of standard_upper_bounds (DT Int32) =
     Some [DT Int32, DT Int64, PyType PyFloat, PyType PyComplex, DT Float16, DT BFloat16, DT
     Float8_e5m2fnuz, DT Float8_e5m2, DT Float8_e4m3fnuz, DT Float8_e4m3fn, DT
     Float8_e4m3b11fnuz, DT Float32, DT Complex128, DT Complex64, DT Float64]"
  by (simp add: standard_upper_bounds_def)

lemma standard_upper_bounds_Float64:
  "map_of standard_upper_bounds (DT Float64) = Some [DT Float64, DT Complex128]"
  by (simp add: standard_upper_bounds_def)

lemma dtype_of_dtype_object:
  "dtype cfg (ODType d) c =
     (if c then canonicalize_dtype cfg (DTypeObj d) True else Inr (Np d))"
  by (cases d; simp add: dtype_def getattr_dtype_def issubdtype_extended_like
      np_result_type_def like_of_def jax_dtype_set_def bool_types_def int_types_def
      float_types_def complex_types_def custom_float_dtypes_def)

lemma dtype_of_int_literal:
  "dtype cfg (OPyLit PyInt) c =
     (if c then canonicalize_dtype cfg (DTypeObj Int64) True else Inr (Np Int64))"
  by (simp add: dtype_def python_scalar_dtypes_def issubdtype_extended_like like_of_def
      jax_dtype_set_def int_types_def)

lemma result_type_two_dtypes:
  assumes "numpy_dtype_promotion cfg = ''standard''" and "a \<noteq> b"
    and "least_upper_bound cfg ''standard'' [DT a, DT b] = Inr (DT c)"
  shows "result_type cfg [ODType a, ODType b] False =
           (case canonicalize_dtype cfg (DTypeObj c) True of
              Inl e \<Rightarrow> Inl e | Inr dt \<Rightarrow> Inr (Dtype dt))"
  using assms
  by (simp add: result_type_def result_type_pair_def lattice_result_type_def
      lattice_result_type_chain_def dtype_and_weaktype_simps jax_type_def node_operand_def
      dtype_of_dtype_object like_of_def weak_types_def split: sum.splits)

text \<open>
  Claim C8, as stated, fails when the target is a weakly typed value: with \<open>x64\<close>
  disabled, \<open>safe_to_cast(int8, 1)\<close> is \<open>True\<close>, although the two arguments differ and
  \<open>result_type(int8, 1)\<close> is \<open>int8\<close>, which is not the dtype of the target (\<open>int64\<close>,
  canonically \<open>int32\<close>). And under the strict policy \<open>safe_to_cast(int32, float64)\<close>
  raises a \<open>TypePromotionError\<close>.
\<close>

theorem safe_to_cast_weak_target:
  "safe_to_cast \<lparr>numpy_dtype_promotion = ''standard'', enable_x64 = False,
       default_dtype_bits = ''64''\<rparr> (ODType Int8) (OPyLit PyInt) = Inr True
   \<and> ODType Int8 \<noteq> OPyLit PyInt
   \<and> result_type \<lparr>numpy_dtype_promotion = ''standard'', enable_x64 = False,
       default_dtype_bits = ''64''\<rparr> [ODType Int8, OPyLit PyInt] False = Inr (Dtype (Np Int8))
   \<and> dtype \<lparr>numpy_dtype_promotion = ''standard'', enable_x64 = False,
       default_dtype_bits = ''64''\<rparr> (OPyLit PyInt) False = Inr (Np Int64)
   \<and> dtype \<lparr>numpy_dtype_promotion = ''standard'', enable_x64 = False,
       default_dtype_bits = ''64''\<rparr> (OPyLit PyInt) True = Inr (Np Int32)
   \<and> safe_to_cast \<lparr>numpy_dtype_promotion = ''strict'', enable_x64 = True,
       default_dtype_bits = ''64''\<rparr> (ODType Int32) (ODType Float64)
       = Inl (TypePromotionError StrictMsg)"
proof (intro conjI)
  let ?c = "\<lparr>numpy_dtype_promotion = ''standard'', enable_x64 = False,
       default_dtype_bits = ''64''\<rparr>"
  have l1: "least_upper_bound ?c ''standard'' [DT Int8, DT Int32] = Inr (DT Int32)"
    unfolding least_upper_bound_standard
    by (rule least_upper_bound_on_upper_right
          [OF _ standard_upper_bounds_Int8 standard_upper_bounds_Int32]) simp_all
  have l2: "least_upper_bound ?c ''standard'' [DT Int8, PyType PyInt] = Inr (DT Int8)"
    unfolding least_upper_bound_standard
    by (rule least_upper_bound_on_upper_left
          [OF _ standard_upper_bounds_Int8 standard_upper_bounds_PyInt]) simp_all
  have r1: "result_type ?c [ODType Int8, ODType Int32] False = Inr (Dtype (Np Int32))"
    by (subst result_type_two_dtypes [OF _ _ l1])
      (simp_all add: canonicalize_dtype_valid np_dtype_def dtype_to_32bit_dtype_def)
  show "safe_to_cast ?c (ODType Int8) (OPyLit PyInt) = Inr True"
    by (simp add: safe_to_cast_def dtype_of_dtype_object dtype_of_int_literal
        canonicalize_dtype_valid np_dtype_def dtype_to_32bit_dtype_def dtype_operand_def r1)
  show "ODType Int8 \<noteq> OPyLit PyInt" by simp
  show "result_type ?c [ODType Int8, OPyLit PyInt] False = Inr (Dtype (Np Int8))"
    by (simp add: result_type_def result_type_pair_def lattice_result_type_def
        lattice_result_type_chain_def dtype_and_weaktype_simps jax_type_def node_operand_def
        scalar_item_type_def int_types_def custom_float_dtypes_def l2
        dtype_of_dtype_object like_of_def weak_types_def
        canonicalize_dtype_valid np_dtype_def dtype_to_32bit_dtype_def)
  show "dtype ?c (OPyLit PyInt) False = Inr (Np Int64)"
    by (simp add: dtype_of_int_literal)
  show "dtype ?c (OPyLit PyInt) True = Inr (Np Int32)"
    by (simp add: dtype_of_int_literal canonicalize_dtype_valid np_dtype_def
        dtype_to_32bit_dtype_def)
  let ?s = "\<lparr>numpy_dtype_promotion = ''strict'', enable_x64 = True,
       default_dtype_bits = ''64''\<rparr>"
  have "least_upper_bound_on [(''strict'', strict_upper_bounds)] ?s ''strict''
          [DT Int32, DT Float64]
          = Inl (TypePromotionError (no_promotion_path_msg ?s [DT Int32, DT Float64]))"
    by (subst least_upper_bound_on_terminal_right
          [OF _ strict_upper_bounds_DT strict_upper_bounds_DT]) simp_all
  then have l3: "least_upper_bound ?s ''strict'' [DT Int32, DT Float64]
                   = Inl (TypePromotionError StrictMsg)"
    by (simp add: least_upper_bound_strict no_promotion_path_msg_def)
  show "safe_to_cast ?s (ODType Int32) (ODType Float64) = Inl (TypePromotionError StrictMsg)"
    by (simp add: safe_to_cast_def dtype_of_dtype_object canonicalize_dtype_valid
        np_dtype_def dtype_operand_def result_type_def result_type_pair_def
        lattice_result_type_def lattice_result_type_chain_def dtype_and_weaktype_simps
        jax_type_def l3)
qed

text \<open>
  Claim C8, amended. Let \<open>ds\<close> and \<open>dt\<close> be the canonical dtypes of the source and of
  the target, \<open>dtype(x, canonicalize=True)\<close>. Then \<open>safe_to_cast(source, target)\<close>
  returns \<open>True\<close> if and only if \<open>ds == dt\<close> or \<open>result_type(source, dt) == dt\<close>, and
  \<open>False\<close> if and only if \<open>ds != dt\<close> and \<open>result_type(source, dt)\<close> returns another
  dtype than \<open>dt\<close>: the target enters \<open>result_type\<close> as its canonical dtype, strongly
  typed, whatever the target was. In particular, under the standard policy,
  \<open>safe_to_cast(int32, float64)\<close> is \<open>True\<close> and \<open>safe_to_cast(float64, int32)\<close> is
  \<open>False\<close>.
\<close>

theorem safe_to_cast_characterisation:
  "(dtype cfg s True = Inr ds \<and> dtype cfg t True = Inr dt \<longrightarrow>
      (safe_to_cast cfg s t = Inr True \<longleftrightarrow>
         ds = dt \<or> result_type cfg [s, dtype_operand dt] False = Inr (Dtype dt))
      \<and> (safe_to_cast cfg s t = Inr False \<longleftrightarrow>
         ds \<noteq> dt \<and> (\<exists>r. result_type cfg [s, dtype_operand dt] False = Inr (Dtype r)
                          \<and> r \<noteq> dt)))
   \<and> (numpy_dtype_promotion cfg = ''standard'' \<longrightarrow>
        safe_to_cast cfg (ODType Int32) (ODType Float64) = Inr True
        \<and> safe_to_cast cfg (ODType Float64) (ODType Int32) = Inr False)"
proof (intro conjI impI)
  assume a: "dtype cfg s True = Inr ds \<and> dtype cfg t True = Inr dt"
  have nd: "result_type cfg xs False \<noteq> Inr (DtypeAndWeak x w)" for xs x w
    by (auto simp: result_type_def split: sum.splits prod.splits)
  show "safe_to_cast cfg s t = Inr True \<longleftrightarrow>
         ds = dt \<or> result_type cfg [s, dtype_operand dt] False = Inr (Dtype dt)"
    using a by (auto simp: safe_to_cast_def split: sum.splits)
  show "safe_to_cast cfg s t = Inr False \<longleftrightarrow>
         ds \<noteq> dt \<and> (\<exists>r. result_type cfg [s, dtype_operand dt] False = Inr (Dtype r)
                          \<and> r \<noteq> dt)"
  proof (cases "result_type cfg [s, dtype_operand dt] False")
    case (Inl e)
    with a show ?thesis by (simp add: safe_to_cast_def)
  next
    case (Inr r)
    with nd [of "[s, dtype_operand dt]"] obtain x where "r = Dtype x" by (cases r) auto
    with a Inr show ?thesis by (auto simp: safe_to_cast_def)
  qed
next
  assume s: "numpy_dtype_promotion cfg = ''standard''"
  have l1: "least_upper_bound cfg ''standard'' [DT Int32, DT Float64] = Inr (DT Float64)"
    unfolding least_upper_bound_standard
    by (rule least_upper_bound_on_upper_right
          [OF _ standard_upper_bounds_Int32 standard_upper_bounds_Float64]) simp_all
  have l2: "least_upper_bound cfg ''standard'' [DT Int32, DT Float32] = Inr (DT Float32)"
    unfolding least_upper_bound_standard
    by (rule least_upper_bound_on_upper_right
          [OF _ standard_upper_bounds_Int32 standard_upper_bounds_Float32]) simp_all
  have l3: "least_upper_bound cfg ''standard'' [DT Float64, DT Int32] = Inr (DT Float64)"
    unfolding least_upper_bound_standard
    by (rule least_upper_bound_on_upper_left
          [OF _ standard_upper_bounds_Float64 standard_upper_bounds_Int32]) simp_all
  show "safe_to_cast cfg (ODType Int32) (ODType Float64) = Inr True"
    by (cases "enable_x64 cfg")
      (simp_all add: safe_to_cast_def dtype_of_dtype_object canonicalize_dtype_valid
        np_dtype_def dtype_to_32bit_dtype_def dtype_operand_def
        result_type_two_dtypes [OF s _ l1] result_type_two_dtypes [OF s _ l2])
  show "safe_to_cast cfg (ODType Float64) (ODType Int32) = Inr False"
    by (cases "enable_x64 cfg")
      (simp_all add: safe_to_cast_def dtype_of_dtype_object canonicalize_dtype_valid
        np_dtype_def dtype_to_32bit_dtype_def dtype_operand_def
        result_type_two_dtypes [OF s _ l3])
qed

theorem safe_to_cast_characterisation_witness:
  "dtype \<lparr>numpy_dtype_promotion = ''standard'', enable_x64 = False,
       default_dtype_bits = ''64''\<rparr> (ODType Int64) True = Inr (Np Int32)
   \<and> dtype \<lparr>numpy_dtype_promotion = ''standard'', enable_x64 = False,
       default_dtype_bits = ''64''\<rparr> (ODType Int32) True = Inr (Np Int32)
   \<and> safe_to_cast \<lparr>numpy_dtype_promotion = ''standard'', enable_x64 = False,
       default_dtype_bits = ''64''\<rparr> (ODType Int64) (ODType Int32) = Inr True
   \<and> safe_to_cast \<lparr>numpy_dtype_promotion = ''standard'', enable_x64 = False,
       default_dtype_bits = ''64''\<rparr> (ODType Float64) (ODType Int32) = Inr False"
proof -
  have d: "dtype \<lparr>numpy_dtype_promotion = ''standard'', enable_x64 = False,
       default_dtype_bits = ''64''\<rparr> (ODType Int64) True = Inr (Np Int32)"
    "dtype \<lparr>numpy_dtype_promotion = ''standard'', enable_x64 = False,
       default_dtype_bits = ''64''\<rparr> (ODType Int32) True = Inr (Np Int32)"
    by (simp_all add: dtype_of_dtype_object canonicalize_dtype_valid np_dtype_def
        dtype_to_32bit_dtype_def)
  from safe_to_cast_characterisation [of "\<lparr>numpy_dtype_promotion = ''standard'',
       enable_x64 = False, default_dtype_bits = ''64''\<rparr>" "ODType Int64" "Np Int32"
       "ODType Int32" "Np Int32"] d
  show ?thesis by simp
qed

section \<open>The solver returns the least upper bound\<close>

lemma standard_upper_bounds_closed_check:
  "list_all (\<lambda>(n, ub). list_all (\<lambda>m. m \<in> set (map fst standard_upper_bounds)) ub)
     standard_upper_bounds"
  by code_simp

lemma standard_upper_bounds_antisym_check:
  "list_all (\<lambda>(a, ub). list_all (\<lambda>b. b = a
       \<or> a \<notin> set (case map_of standard_upper_bounds b of Some u \<Rightarrow> u | None \<Rightarrow> [])) ub)
     standard_upper_bounds"
  by code_simp

lemma strict_upper_bounds_closed_check:
  "list_all (\<lambda>(n, ub). list_all (\<lambda>m. m \<in> set (map fst strict_upper_bounds)) ub)
     strict_upper_bounds"
  by code_simp

lemma strict_upper_bounds_antisym_check:
  "list_all (\<lambda>(a, ub). list_all (\<lambda>b. b = a
       \<or> a \<notin> set (case map_of strict_upper_bounds b of Some u \<Rightarrow> u | None \<Rightarrow> [])) ub)
     strict_upper_bounds"
  by code_simp

lemma closed_of_check:
  assumes "list_all (\<lambda>(n, ub). list_all (\<lambda>m. m \<in> set (map fst T)) ub) T"
  shows "UB_ref T n \<subseteq> dom (map_of T)"
proof
  fix m assume "m \<in> UB_ref T n"
  then obtain ub where ub: "map_of T n = Some ub" and m: "m \<in> set ub"
    by (auto simp: UB_ref_def split: option.splits)
  from ub have "(n, ub) \<in> set T" by (rule map_of_SomeD)
  with assms m have "m \<in> fst ` set T"
    by (auto simp: list_all_iff)
  then show "m \<in> dom (map_of T)"
    by (simp add: dom_map_of_conv_image_fst)
qed

lemma antisym_of_check:
  assumes chk: "list_all (\<lambda>(a, ub). list_all (\<lambda>b. b = a
       \<or> a \<notin> set (case map_of T b of Some u \<Rightarrow> u | None \<Rightarrow> [])) ub) T"
    and ba: "b \<in> UB_ref T a" and ab: "a \<in> UB_ref T b"
  shows "a = b"
proof -
  from ba obtain ub where ub: "map_of T a = Some ub" and b: "b \<in> set ub"
    by (auto simp: UB_ref_def split: option.splits)
  from ub have mem: "(a, ub) \<in> set T" by (rule map_of_SomeD)
  from chk have "\<forall>x\<in>set T. case x of (a, ub) \<Rightarrow> list_all (\<lambda>b. b = a
       \<or> a \<notin> set (case map_of T b of Some u \<Rightarrow> u | None \<Rightarrow> [])) ub"
    by (simp only: list_all_iff)
  from bspec [OF this mem] have "list_all (\<lambda>b. b = a
       \<or> a \<notin> set (case map_of T b of Some u \<Rightarrow> u | None \<Rightarrow> [])) ub"
    by (simp only: prod.case)
  then have "\<forall>b\<in>set ub. b = a
       \<or> a \<notin> set (case map_of T b of Some u \<Rightarrow> u | None \<Rightarrow> [])"
    by (simp only: list_all_iff)
  from bspec [OF this b]
  have disj: "b = a \<or> a \<notin> set (case map_of T b of Some u \<Rightarrow> u | None \<Rightarrow> [])" .
  from ab obtain u where u: "map_of T b = Some u" and a: "a \<in> set u"
    by (auto simp: UB_ref_def split: option.splits)
  from u a have "a \<in> set (case map_of T b of Some u \<Rightarrow> u | None \<Rightarrow> [])" by simp
  with disj show ?thesis by blast
qed

lemma distinct_singleton: "distinct xs \<Longrightarrow> set xs = {c} \<Longrightarrow> xs = [c]"
proof (cases xs)
  case Nil
  assume "set xs = {c}" with Nil show ?thesis by simp
next
  case (Cons a as)
  assume d: "distinct xs" and s: "set xs = {c}"
  from s Cons have a: "a = c" by auto
  from d Cons have "a \<notin> set as" by simp
  moreover from s Cons have "set as \<subseteq> {c}" by auto
  ultimately have "as = []" using a by (cases as) auto
  with a Cons show ?thesis by simp
qed


lemma least_upper_bound_on_wf:
  assumes tab: "map_of tables p = Some UB"
    and ne: "nodes \<noteq> []"
    and known: "set nodes \<subseteq> dom (map_of UB)"
    and closed: "\<And>n. UB_ref UB n \<subseteq> dom (map_of UB)"
    and asym: "\<And>a b. b \<in> UB_ref UB a \<Longrightarrow> a \<in> UB_ref UB b \<Longrightarrow> a = b"
  shows "(CUB_ref UB (set nodes) \<inter> set nodes \<noteq> {} \<longrightarrow>
            (\<exists>c. CUB_ref UB (set nodes) \<inter> set nodes = {c}
               \<and> least_upper_bound_on tables cfg p nodes = Inr c))
       \<and> (CUB_ref UB (set nodes) \<inter> set nodes = {} \<longrightarrow>
            (\<forall>c. LUB_ref UB (set nodes) = {c} \<longrightarrow>
               least_upper_bound_on tables cfg p nodes = Inr c))
       \<and> (\<forall>c. least_upper_bound_on tables cfg p nodes = Inr c
               \<longleftrightarrow> LUB_ref UB (set nodes) = {c})
       \<and> (\<forall>c d. c \<in> LUB_ref UB (set nodes) \<and> d \<in> LUB_ref UB (set nodes) \<longrightarrow> c = d)
       \<and> (LUB_ref UB (set nodes) = {} \<longrightarrow>
            least_upper_bound_on tables cfg p nodes =
              Inl (TypePromotionError (no_promotion_path_msg cfg nodes)))"
proof -
  define N where "N = set nodes"
  define C where "C = CUB_ref UB (set nodes)"
  define L where "L = LUB_ref UB (set nodes)"
  define r where "r = least_upper_bound_on tables cfg p nodes"
  have C_sub: "C \<subseteq> UB_ref UB n" if "n \<in> N" for n
    using that unfolding C_def N_def CUB_ref_def by (rule INT_lower)
  have L_I: "x \<in> L" if "x \<in> C" "C \<subseteq> UB_ref UB x" for x
    using that unfolding L_def C_def LUB_ref_def by simp
  have L_D1: "x \<in> C" if "x \<in> L" for x
    using that unfolding L_def C_def LUB_ref_def by simp
  have L_D2: "C \<subseteq> UB_ref UB x" if "x \<in> L" for x
    using that unfolding L_def C_def LUB_ref_def by simp
  have uniq: "x = y" if x: "x \<in> L" and y: "y \<in> L" for x y
  proof -
    from L_D1 [OF y] L_D2 [OF x] have "y \<in> UB_ref UB x" by (rule subsetD [rotated])
    moreover from L_D1 [OF x] L_D2 [OF y] have "x \<in> UB_ref UB y" by (rule subsetD [rotated])
    ultimately show ?thesis by (rule asym)
  qed
  have short: "c \<in> L" if "c \<in> C" "c \<in> N" for c
    using that(1) C_sub [OF that(2)] by (rule L_I)
  from ne obtain n0 where n0: "n0 \<in> N"
    unfolding N_def by (cases nodes) auto
  have "C \<subseteq> dom (map_of UB)"
    using C_sub [OF n0] closed [of n0] by (rule subset_trans)
  then have cl: "CUB_ref UB (set nodes) \<subseteq> dom (map_of UB)"
    unfolding C_def .
  from least_upper_bound_on_char [OF tab ne known cl, of cfg]
  obtain LUB where d: "distinct LUB"
    and s0: "set LUB = (if CUB_ref UB (set nodes) \<inter> set nodes \<noteq> {}
                   then CUB_ref UB (set nodes) \<inter> set nodes
                   else LUB_ref UB (set nodes))"
    and rr0: "least_upper_bound_on tables cfg p nodes =
          (case LUB of
             [] \<Rightarrow> Inl (TypePromotionError (no_promotion_path_msg cfg nodes))
           | [c] \<Rightarrow> Inr c
           | c # d # r \<Rightarrow> Inl (TypePromotionError InternalMsg))"
    by blast
  have s: "set LUB = (if C \<inter> N = {} then L else C \<inter> N)"
    using s0 by (simp add: C_def N_def L_def)
  have sL: "set LUB = L"
  proof (cases "C \<inter> N = {}")
    case True
    with s show ?thesis by simp
  next
    case False
    then obtain c where c: "c \<in> C" "c \<in> N" by blast
    have cL: "c \<in> L" using c by (rule short)
    have "C \<inter> N = L"
    proof (rule set_eqI, rule iffI)
      fix x assume "x \<in> C \<inter> N"
      then show "x \<in> L" by (simp add: short)
    next
      fix x assume "x \<in> L"
      then have "x = c" using cL by (rule uniq)
      with c show "x \<in> C \<inter> N" by simp
    qed
    with s False show ?thesis by simp
  qed
  have ret: "r = Inr c \<longleftrightarrow> LUB = [c]" for c
    unfolding r_def rr0 by (simp split: list.splits)
  have single: "LUB = [c] \<longleftrightarrow> L = {c}" for c
  proof
    assume "LUB = [c]"
    then have "set LUB = {c}" by simp
    with sL show "L = {c}" by simp
  next
    assume "L = {c}"
    with sL have "set LUB = {c}" by simp
    with d show "LUB = [c]" by (rule distinct_singleton)
  qed
  have c3: "r = Inr c \<longleftrightarrow> L = {c}" for c
    using ret [of c] single [of c] by simp
  have c1: "\<exists>c. C \<inter> N = {c} \<and> r = Inr c" if nonempty: "C \<inter> N \<noteq> {}"
  proof -
    from nonempty obtain c where c: "c \<in> C" "c \<in> N" by blast
    have cL: "c \<in> L" using c by (rule short)
    have Lc: "L = {c}"
    proof (rule set_eqI, rule iffI)
      fix x assume "x \<in> L"
      then have "x = c" using cL by (rule uniq)
      then show "x \<in> {c}" by simp
    next
      fix x assume "x \<in> {c}"
      with cL show "x \<in> L" by simp
    qed
    from s nonempty sL have "C \<inter> N = L" by simp
    with Lc have "C \<inter> N = {c}" by simp
    moreover from Lc have "r = Inr c" by (simp add: c3)
    ultimately show ?thesis by blast
  qed
  have c5: "r = Inl (TypePromotionError (no_promotion_path_msg cfg nodes))" if "L = {}"
  proof -
    from that sL have "LUB = []" by simp
    then show ?thesis unfolding r_def rr0 by simp
  qed
  show ?thesis
  proof (intro conjI impI allI)
    assume "CUB_ref UB (set nodes) \<inter> set nodes \<noteq> {}"
    then have "C \<inter> N \<noteq> {}" unfolding C_def N_def .
    from c1 [OF this]
    show "\<exists>c. CUB_ref UB (set nodes) \<inter> set nodes = {c}
               \<and> least_upper_bound_on tables cfg p nodes = Inr c"
      unfolding C_def N_def r_def .
  next
    fix c assume "LUB_ref UB (set nodes) = {c}"
    then have "L = {c}" unfolding L_def .
    then have "r = Inr c" by (simp add: c3)
    then show "least_upper_bound_on tables cfg p nodes = Inr c" unfolding r_def .
  next
    fix c
    from c3 [of c]
    show "least_upper_bound_on tables cfg p nodes = Inr c \<longleftrightarrow> LUB_ref UB (set nodes) = {c}"
      unfolding r_def L_def .
  next
    fix c e assume "c \<in> LUB_ref UB (set nodes) \<and> e \<in> LUB_ref UB (set nodes)"
    then have "c \<in> L" "e \<in> L" unfolding L_def by simp_all
    then show "c = e" by (rule uniq)
  next
    assume "LUB_ref UB (set nodes) = {}"
    then have "L = {}" unfolding L_def .
    from c5 [OF this]
    show "least_upper_bound_on tables cfg p nodes =
              Inl (TypePromotionError (no_promotion_path_msg cfg nodes))"
      unfolding r_def .
  qed
qed


lemma standard_upper_bounds_wf:
  "UB_ref standard_upper_bounds n \<subseteq> dom (map_of standard_upper_bounds)"
  "b \<in> UB_ref standard_upper_bounds a \<Longrightarrow> a \<in> UB_ref standard_upper_bounds b \<Longrightarrow> a = b"
  by (rule closed_of_check [OF standard_upper_bounds_closed_check])
    (rule antisym_of_check [OF standard_upper_bounds_antisym_check])

lemma strict_upper_bounds_wf:
  "UB_ref strict_upper_bounds n \<subseteq> dom (map_of strict_upper_bounds)"
  "b \<in> UB_ref strict_upper_bounds a \<Longrightarrow> a \<in> UB_ref strict_upper_bounds b \<Longrightarrow> a = b"
  by (rule closed_of_check [OF strict_upper_bounds_closed_check])
    (rule antisym_of_check [OF strict_upper_bounds_antisym_check])

text \<open>
  Claim C1. For both policies and every non-empty list of nodes that are keys of the
  policy's dict \<open>UB\<close> of upper bounds, as \<open>_make_lattice_upper_bounds\<close> builds it,
  \<open>_least_upper_bound\<close> returns the least upper bound of the reference definition: when
  \<open>CUB \<inter> N\<close> is not empty it is a singleton and its element is returned; otherwise every
  \<open>c\<close> that is the only member of \<open>CUB\<close> with \<open>CUB \<subseteq> UB(c)\<close> is returned. In both cases
  \<open>c\<close> is returned exactly when \<open>LUB(N) = {c}\<close>, and \<open>LUB(N)\<close> never has two elements.
\<close>

theorem least_upper_bound_correct:
  assumes "p = ''standard'' \<or> p = ''strict''"
    and "make_lattice_upper_bounds p = Inr UB"
    and "nodes \<noteq> []"
    and "set nodes \<subseteq> dom (map_of UB)"
  shows "(CUB_ref UB (set nodes) \<inter> set nodes \<noteq> {} \<longrightarrow>
            (\<exists>c. CUB_ref UB (set nodes) \<inter> set nodes = {c}
               \<and> least_upper_bound cfg p nodes = Inr c))
       \<and> (CUB_ref UB (set nodes) \<inter> set nodes = {} \<longrightarrow>
            (\<forall>c. LUB_ref UB (set nodes) = {c} \<longrightarrow> least_upper_bound cfg p nodes = Inr c))
       \<and> (\<forall>c. least_upper_bound cfg p nodes = Inr c \<longleftrightarrow> LUB_ref UB (set nodes) = {c})
       \<and> (\<forall>c d. c \<in> LUB_ref UB (set nodes) \<and> d \<in> LUB_ref UB (set nodes) \<longrightarrow> c = d)"
proof -
  from assms(1) show ?thesis
  proof
    assume p: "p = ''standard''"
    with assms(2) have UB: "UB = standard_upper_bounds"
      by (simp add: make_lattice_upper_bounds_standard)
    have tab: "map_of [(''standard'', standard_upper_bounds)] ''standard''
                 = Some standard_upper_bounds"
      by simp
    from least_upper_bound_on_wf [OF tab assms(3) assms(4) [unfolded UB]
        standard_upper_bounds_wf, of cfg]
    show ?thesis
      unfolding p UB least_upper_bound_standard by blast
  next
    assume p: "p = ''strict''"
    with assms(2) have UB: "UB = strict_upper_bounds"
      by (simp add: make_lattice_upper_bounds_strict)
    have tab: "map_of [(''strict'', strict_upper_bounds)] ''strict''
                 = Some strict_upper_bounds"
      by simp
    from least_upper_bound_on_wf [OF tab assms(3) assms(4) [unfolded UB]
        strict_upper_bounds_wf, of cfg]
    show ?thesis
      unfolding p UB least_upper_bound_strict by blast
  qed
qed

lemma standard_upper_bounds_UInt8_Int8_lub:
  "least_upper_bound cfg ''standard'' [DT Int8, DT UInt8] = Inr (DT Int16)"
  unfolding least_upper_bound_standard
  by (simp add: least_upper_bound_on_def standard_upper_bounds_def)

theorem least_upper_bound_correct_witness:
  "make_lattice_upper_bounds ''standard'' = Inr standard_upper_bounds
   \<and> set [DT Int8, DT UInt8] \<subseteq> dom (map_of standard_upper_bounds)
   \<and> least_upper_bound \<lparr>numpy_dtype_promotion = ''standard'', enable_x64 = False,
        default_dtype_bits = ''64''\<rparr> ''standard'' [DT Int8, DT UInt8] = Inr (DT Int16)
   \<and> LUB_ref standard_upper_bounds (set [DT Int8, DT UInt8]) = {DT Int16}"
proof -
  have k: "set [DT Int8, DT UInt8] \<subseteq> dom (map_of standard_upper_bounds)"
    by (simp add: standard_upper_bounds_known)
  have ne: "[DT Int8, DT UInt8] \<noteq> []" by simp
  have "least_upper_bound \<lparr>numpy_dtype_promotion = ''standard'', enable_x64 = False,
        default_dtype_bits = ''64''\<rparr> ''standard'' [DT Int8, DT UInt8] = Inr (DT Int16)
      \<longleftrightarrow> LUB_ref standard_upper_bounds (set [DT Int8, DT UInt8]) = {DT Int16}"
    by (rule least_upper_bound_correct [OF disjI1 [OF refl]
          make_lattice_upper_bounds_standard ne k,
          THEN conjunct2, THEN conjunct2, THEN conjunct1, rule_format])
  then have "LUB_ref standard_upper_bounds (set [DT Int8, DT UInt8]) = {DT Int16}"
    by (simp only: standard_upper_bounds_UInt8_Int8_lub simp_thms)
  with k show ?thesis
    by (simp add: make_lattice_upper_bounds_standard standard_upper_bounds_UInt8_Int8_lub)
qed

section \<open>The failures of the solver\<close>

lemma no_promotion_path_msg_eq:
  "no_promotion_path_msg cfg nodes =
     (if numpy_dtype_promotion cfg = ''strict'' then StrictMsg
      else if \<exists>n\<in>set nodes. \<exists>d\<in>set float8_dtypes. n = DT d then Float8Msg
      else if \<exists>n\<in>set nodes. \<exists>d\<in>set int4_dtypes. n = DT d then Int4Msg
      else GenericMsg)"
  by (auto simp: no_promotion_path_msg_def list_ex_iff)

text \<open>
  Claim C2. Let the candidates be the set that \<open>_least_upper_bound\<close> computes as \<open>LUB\<close>:
  \<open>CUB \<inter> N\<close> when that is not empty, and \<open>{c \<in> CUB | CUB \<subseteq> UB(c)}\<close> otherwise (for any
  dict \<open>UB\<close> of upper bounds that has the nodes and their common upper bounds as keys).
  With no candidate the solver raises a \<open>TypePromotionError\<close> whose message is chosen in
  this order: the strict one when the configured policy is strict; else the 8-bit float
  one when a node is an 8-bit float; else the 4-bit integer one when a node is a 4-bit
  integer; else the generic one. With two or more candidates it raises, whatever the
  candidates are, a \<open>TypePromotionError\<close> again, with the internal message, which is none
  of the four messages above. With exactly one candidate it returns it. The module's solver is this one at the module's
  two dicts.
\<close>

theorem least_upper_bound_failures:
  assumes "map_of tables p = Some UB"
    and "nodes \<noteq> []"
    and "set nodes \<subseteq> dom (map_of UB)"
    and "CUB_ref UB (set nodes) \<subseteq> dom (map_of UB)"
    and "L = (if CUB_ref UB (set nodes) \<inter> set nodes \<noteq> {}
              then CUB_ref UB (set nodes) \<inter> set nodes else LUB_ref UB (set nodes))"
  shows "(L = {} \<longrightarrow>
            least_upper_bound_on tables cfg p nodes =
              Inl (TypePromotionError
                (if numpy_dtype_promotion cfg = ''strict'' then StrictMsg
                 else if \<exists>n\<in>set nodes. \<exists>d\<in>set float8_dtypes. n = DT d then Float8Msg
                 else if \<exists>n\<in>set nodes. \<exists>d\<in>set int4_dtypes. n = DT d then Int4Msg
                 else GenericMsg)))
       \<and> ((\<exists>c d. c \<in> L \<and> d \<in> L \<and> c \<noteq> d) \<longrightarrow>
            least_upper_bound_on tables cfg p nodes = Inl (TypePromotionError InternalMsg)
            \<and> InternalMsg \<notin> {StrictMsg, Float8Msg, Int4Msg, GenericMsg})
       \<and> (\<forall>c. L = {c} \<longrightarrow> least_upper_bound_on tables cfg p nodes = Inr c)
       \<and> least_upper_bound cfg p nodes =
           least_upper_bound_on
             [(''standard'', standard_upper_bounds), (''strict'', strict_upper_bounds)]
             cfg p nodes"
proof -
  from least_upper_bound_on_char [OF assms(1-4), of cfg]
  obtain LUB where d: "distinct LUB"
    and s0: "set LUB = (if CUB_ref UB (set nodes) \<inter> set nodes \<noteq> {}
                   then CUB_ref UB (set nodes) \<inter> set nodes
                   else LUB_ref UB (set nodes))"
    and r: "least_upper_bound_on tables cfg p nodes =
          (case LUB of
             [] \<Rightarrow> Inl (TypePromotionError (no_promotion_path_msg cfg nodes))
           | [c] \<Rightarrow> Inr c
           | c # d # r \<Rightarrow> Inl (TypePromotionError InternalMsg))"
    by blast
  from s0 assms(5) have s: "set LUB = L" by simp
  have zero: "least_upper_bound_on tables cfg p nodes =
              Inl (TypePromotionError
                (if numpy_dtype_promotion cfg = ''strict'' then StrictMsg
                 else if \<exists>n\<in>set nodes. \<exists>d\<in>set float8_dtypes. n = DT d then Float8Msg
                 else if \<exists>n\<in>set nodes. \<exists>d\<in>set int4_dtypes. n = DT d then Int4Msg
                 else GenericMsg))" if "L = {}"
  proof -
    from that s have "LUB = []" by simp
    then show ?thesis unfolding r no_promotion_path_msg_eq by simp
  qed
  have many: "least_upper_bound_on tables cfg p nodes = Inl (TypePromotionError InternalMsg)"
    if "\<exists>c d. c \<in> L \<and> d \<in> L \<and> c \<noteq> d"
  proof -
    from that s obtain c e where ce: "c \<in> set LUB" "e \<in> set LUB" "c \<noteq> e" by auto
    have "\<exists>x y zs. LUB = x # y # zs"
    proof (cases LUB)
      case Nil
      with ce show ?thesis by simp
    next
      case (Cons x xs)
      with ce have "xs \<noteq> []" by auto
      then obtain y zs where "xs = y # zs" by (cases xs) auto
      with Cons show ?thesis by simp
    qed
    then obtain x y zs where "LUB = x # y # zs" by blast
    then show ?thesis unfolding r by simp
  qed
  have one: "least_upper_bound_on tables cfg p nodes = Inr c" if "L = {c}" for c
  proof -
    from that s have "set LUB = {c}" by simp
    with d have "LUB = [c]" by (rule distinct_singleton)
    then show ?thesis unfolding r by simp
  qed
  have real: "least_upper_bound cfg p nodes =
           least_upper_bound_on
             [(''standard'', standard_upper_bounds), (''strict'', strict_upper_bounds)]
             cfg p nodes"
    by (simp add: least_upper_bound_def lattice_upper_bounds_eq)
  have other: "InternalMsg \<notin> {StrictMsg, Float8Msg, Int4Msg, GenericMsg}"
    by simp
  from zero many one real other show ?thesis by blast
qed

theorem least_upper_bound_failures_witness:
  "least_upper_bound_on
      [(''standard'', standard_upper_bounds), (''strict'', strict_upper_bounds)]
      \<lparr>numpy_dtype_promotion = ''standard'', enable_x64 = False, default_dtype_bits = ''64''\<rparr>
      ''standard'' [DT Float8_e4m3fn, DT Float32] = Inl (TypePromotionError Float8Msg)
   \<and> least_upper_bound_on
      [(''standard'',
        [(DT Int8, [DT Int8, DT Int16, DT Int32]), (DT UInt8, [DT UInt8, DT Int16, DT Int32]),
         (DT Int16, [DT Int16, DT Int32]), (DT Int32, [DT Int32, DT Int16])])]
      \<lparr>numpy_dtype_promotion = ''standard'', enable_x64 = False, default_dtype_bits = ''64''\<rparr>
      ''standard'' [DT Int8, DT UInt8] = Inl (TypePromotionError InternalMsg)"
proof
  let ?c = "\<lparr>numpy_dtype_promotion = ''standard'', enable_x64 = False,
              default_dtype_bits = ''64''\<rparr>"
  have f8: "map_of standard_upper_bounds (DT Float8_e4m3fn) = Some [DT Float8_e4m3fn]"
    by (rule standard_upper_bounds_narrow) (simp add: float8_dtypes_def)
  have cub: "CUB_ref standard_upper_bounds {DT Float8_e4m3fn, DT Float32} = {}"
    by (simp add: CUB_ref_def UB_ref_def f8 standard_upper_bounds_Float32)
  have "least_upper_bound_on
      [(''standard'', standard_upper_bounds), (''strict'', strict_upper_bounds)] ?c
      ''standard'' [DT Float8_e4m3fn, DT Float32] =
        Inl (TypePromotionError
                (if numpy_dtype_promotion ?c = ''strict'' then StrictMsg
                 else if \<exists>n\<in>set [DT Float8_e4m3fn, DT Float32].
                           \<exists>d\<in>set float8_dtypes. n = DT d then Float8Msg
                 else if \<exists>n\<in>set [DT Float8_e4m3fn, DT Float32].
                           \<exists>d\<in>set int4_dtypes. n = DT d then Int4Msg
                 else GenericMsg))"
    by (rule least_upper_bound_failures [where UB = standard_upper_bounds and L = "{}",
          THEN conjunct1, THEN mp])
      (simp_all add: cub LUB_ref_def standard_upper_bounds_known)
  then show "least_upper_bound_on
      [(''standard'', standard_upper_bounds), (''strict'', strict_upper_bounds)] ?c
      ''standard'' [DT Float8_e4m3fn, DT Float32] = Inl (TypePromotionError Float8Msg)"
    by (simp add: float8_dtypes_def)
next
  let ?c = "\<lparr>numpy_dtype_promotion = ''standard'', enable_x64 = False,
              default_dtype_bits = ''64''\<rparr>"
  let ?T = "[(DT Int8, [DT Int8, DT Int16, DT Int32]), (DT UInt8, [DT UInt8, DT Int16, DT Int32]),
         (DT Int16, [DT Int16, DT Int32]), (DT Int32, [DT Int32, DT Int16])]"
  have cub: "CUB_ref ?T {DT Int8, DT UInt8} = {DT Int16, DT Int32}"
    by (auto simp: CUB_ref_def UB_ref_def)
  have lub: "LUB_ref ?T {DT Int8, DT UInt8} = {DT Int16, DT Int32}"
    unfolding LUB_ref_def cub by (auto simp: UB_ref_def)
  show "least_upper_bound_on [(''standard'', ?T)] ?c ''standard'' [DT Int8, DT UInt8]
          = Inl (TypePromotionError InternalMsg)"
    by (rule least_upper_bound_failures [where UB = ?T and L = "{DT Int16, DT Int32}",
          THEN conjunct2, THEN conjunct1, THEN mp, THEN conjunct1])
      (auto simp: cub lub)
qed

end
